theory Spec2Isabelle
  imports Main "HOL-Library.Sublist"
begin

section \<open>Filter streams: compression-aware output and input streams\<close>

text \<open>
  A shallow embedding of \<^verbatim>\<open>utils/filter_streams.cc\<close>. A \<^verbatim>\<open>std::string\<close> is a
  \<open>string\<close> (a list of bytes); a \<^verbatim>\<open>size_t\<close> is a natural number below \<open>2 ^ 64\<close>
  with the wrap-around of its subtraction written out; an exception is a value of the
  outcome of a call; what the operating system answers when a file is opened is a
  parameter of the model (\<open>environment\<close>), and the files a call asks it to open are
  listed in the call's outcome. The calls the code makes on its \<^verbatim>\<open>std::ios\<close> base
  (\<^verbatim>\<open>exceptions\<close>, \<^verbatim>\<open>rdbuf\<close>) are modelled with the condition flags they set and the
  \<^verbatim>\<open>std::ios_base::failure\<close> they raise.
\<close>

subsection \<open>Strings\<close>

definition npos :: nat where
  "npos = 2 ^ 64 - 1"

text \<open>\<^verbatim>\<open>a - b\<close> on \<^verbatim>\<open>size_t\<close>: the difference modulo \<open>2 ^ 64\<close>.\<close>

definition size_minus :: "nat \<Rightarrow> nat \<Rightarrow> nat" where
  "size_minus a b = (a + 2 ^ 64 - b) mod 2 ^ 64"

text \<open>
  \<^verbatim>\<open>std::string::rfind(what)\<close>: the highest position at which \<open>what\<close> occurs in
  \<open>str\<close>, or \<open>npos\<close>. The search starts at \<open>size - what.size()\<close> and walks down to 0.
\<close>

fun rfind_from :: "string \<Rightarrow> string \<Rightarrow> nat \<Rightarrow> nat" where
  "rfind_from str what 0 = (if take (length what) str = what then 0 else npos)"
| "rfind_from str what (Suc i) =
     (if take (length what) (drop (Suc i) str) = what then Suc i
      else rfind_from str what i)"

definition rfind :: "string \<Rightarrow> string \<Rightarrow> nat" where
  "rfind str what =
     (if length str < length what then npos
      else rfind_from str what (length str - length what))"

definition ends_with :: "string \<Rightarrow> string \<Rightarrow> bool" where
  "ends_with str what =
     (let result = rfind str what
      in result \<noteq> npos \<and> result = size_minus (length str) (length what))"

text \<open>
  \<^verbatim>\<open>s.c_str()\<close> read as a C string (by \<^verbatim>\<open>%s\<close>, or by a constructor that takes a
  \<^verbatim>\<open>const char *\<close>): the bytes before the first NUL.
\<close>

definition c_str :: "string \<Rightarrow> string" where
  "c_str s = takeWhile (\<lambda>c. c \<noteq> CHR 0x00) s"

text \<open>
  Modelled from the spec: \<^verbatim>\<open>format\<close> of \<^verbatim>\<open>jml/arch/format.h\<close> and the formatting
  constructor of \<^verbatim>\<open>ML::Exception\<close> (\<^verbatim>\<open>jml/arch/exception.h\<close>) are not among the
  sources. They are the formatting helper for building status strings and diagnostics,
  in the style of \<^verbatim>\<open>printf\<close>: each \<^verbatim>\<open>%s\<close> of the format is replaced by the next
  argument, every other character is copied. Only \<^verbatim>\<open>%s\<close> occurs in this file.
\<close>

fun format :: "string \<Rightarrow> string list \<Rightarrow> string" where
  "format [] args = []"
| "format [c] args = [c]"
| "format (c # d # fmt) args =
     (if c = CHR ''%'' \<and> d = CHR ''s''
      then (case args of [] \<Rightarrow> format fmt [] | a # as \<Rightarrow> a @ format fmt as)
      else c # format (d # fmt) args)"

subsection \<open>Pipelines\<close>

text \<open>\<^verbatim>\<open>std::ios_base::openmode\<close>, a bit mask that the code only forwards.\<close>

type_synonym openmode = nat

datatype file_descriptor_flags = never_close_handle | close_handle

text \<open>
  What \<^verbatim>\<open>push\<close> adds to a \<^verbatim>\<open>filtering_ostream\<close> or \<^verbatim>\<open>filtering_istream\<close>.
  A compressor holds the level it was constructed with, \<open>None\<close> when it was
  constructed without one. \<open>file_descriptor_sink fd None\<close> is the one-argument
  constructor of the older library.
\<close>

datatype component =
    gzip_compressor "int option"
  | bzip2_compressor "int option"
  | lzma_compressor "int option"
  | gzip_decompressor
  | bzip2_decompressor
  | lzma_decompressor
  | std_cout
  | std_cin
  | file_sink string openmode
  | file_source string openmode
  | file_descriptor_sink int "file_descriptor_flags option"

text \<open>A filtering stream is the list of what was pushed onto it, in the order of the pushes.\<close>

type_synonym filtering_stream = "component list"

definition push :: "filtering_stream \<Rightarrow> component \<Rightarrow> filtering_stream" where
  "push new_stream c = new_stream @ [c]"

fun is_filter :: "component \<Rightarrow> bool" where
  "is_filter (gzip_compressor l) = True"
| "is_filter (bzip2_compressor l) = True"
| "is_filter (lzma_compressor l) = True"
| "is_filter gzip_decompressor = True"
| "is_filter bzip2_decompressor = True"
| "is_filter lzma_decompressor = True"
| "is_filter c = False"

text \<open>The compressor and decompressor stages of a pipeline.\<close>

definition filters :: "filtering_stream \<Rightarrow> component list" where
  "filters p = filter is_filter p"

subsection \<open>Streams, exceptions and the environment\<close>

datatype iostate_bit = badbit | failbit | eofbit

text \<open>\<^verbatim>\<open>std::ios_base::iostate\<close>: the set of the bits that are set; \<^verbatim>\<open>goodbit\<close> is \<open>{}\<close>.\<close>

type_synonym iostate = "iostate_bit set"

text \<open>
  The buffer a stream reads or writes through: the one of \<^verbatim>\<open>std::cout\<close> or
  \<^verbatim>\<open>std::cin\<close>, the one of a filtering stream, or none (\<^verbatim>\<open>rdbuf(0)\<close>).
\<close>

datatype streambuf =
    null_streambuf
  | cout_rdbuf
  | cin_rdbuf
  | filtering_rdbuf filtering_stream

text \<open>
  A \<^verbatim>\<open>filter_ostream\<close> or \<^verbatim>\<open>filter_istream\<close> object: the exception mask, the buffer
  and the condition flags (\<^verbatim>\<open>rdstate()\<close>, written \<open>ios_state\<close>) of its \<^verbatim>\<open>std::ios\<close> base, and the member
  \<^verbatim>\<open>stream\<close> that owns the pipeline (\<open>None\<close> while it owns none).
\<close>

record filter_stream =
  exceptions :: iostate
  stream :: "filtering_stream option"
  rdbuf :: streambuf
  ios_state :: iostate

type_synonym filter_ostream = filter_stream
type_synonym filter_istream = filter_stream

text \<open>
  The exceptions that leave the functions of this file: \<^verbatim>\<open>ML::Exception\<close> with its
  message, and \<^verbatim>\<open>std::ios_base::failure\<close>, which the calls of \<^verbatim>\<open>std::ios\<close> raise.
\<close>

datatype exception = Exception string | ios_base_failure

text \<open>
  What is outside the program: the version of the library the file is compiled against,
  whether a \<^verbatim>\<open>file_sink\<close> or \<^verbatim>\<open>file_source\<close> constructed on a path and mode is
  open afterwards, the value of \<^verbatim>\<open>errno\<close> after a source failed to open, and the
  text \<^verbatim>\<open>strerror\<close> gives for an error number.
\<close>

record environment =
  BOOST_VERSION :: nat
  sink_is_open :: "string \<Rightarrow> openmode \<Rightarrow> bool"
  source_is_open :: "string \<Rightarrow> openmode \<Rightarrow> bool"
  errno :: "string \<Rightarrow> openmode \<Rightarrow> int"
  strerror :: "int \<Rightarrow> string"

text \<open>
  The outcome of a call on a stream object: the object after the call, the files the
  call asked the operating system to open (constructing a \<^verbatim>\<open>file_sink\<close> creates or
  truncates the file as the mode says), and the exception that left the call, if any.
\<close>

record outcome =
  object :: filter_stream
  opened :: "(string \<times> openmode) list"
  thrown :: "exception option"

subsection \<open>The calls of the standard stream base\<close>

text \<open>
  \<^verbatim>\<open>std::basic_ios::clear(state)\<close>: the flags become \<open>state\<close>, with \<^verbatim>\<open>badbit\<close> added
  when the stream has no buffer; then \<^verbatim>\<open>std::ios_base::failure\<close> is raised when a
  flag that is set is in the exception mask.
\<close>

definition clear :: "filter_stream \<Rightarrow> iostate \<Rightarrow> outcome" where
  "clear this state =
     (let this1 = this\<lparr>ios_state :=
                    (if rdbuf this = null_streambuf then state \<union> {badbit} else state)\<rparr>
      in \<lparr>object = this1, opened = [],
          thrown = (if ios_state this1 \<inter> exceptions this1 = {} then None
                    else Some ios_base_failure)\<rparr>)"

text \<open>
  \<^verbatim>\<open>std::basic_ios::exceptions(except)\<close>: sets the exception mask, then calls
  \<^verbatim>\<open>clear(rdstate())\<close>.
\<close>

definition set_exceptions :: "filter_stream \<Rightarrow> iostate \<Rightarrow> outcome" where
  "set_exceptions this except = clear (this\<lparr>exceptions := except\<rparr>) (ios_state this)"

text \<open>\<^verbatim>\<open>std::basic_ios::rdbuf(sb)\<close>: sets the buffer, then calls \<^verbatim>\<open>clear()\<close>.\<close>

definition set_rdbuf :: "filter_stream \<Rightarrow> streambuf \<Rightarrow> outcome" where
  "set_rdbuf this sb = clear (this\<lparr>rdbuf := sb\<rparr>) {}"

subsection \<open>filter_ostream\<close>

text \<open>
  \<^verbatim>\<open>filter_ostream::filter_ostream()\<close>: bound to the buffer of \<^verbatim>\<open>std::cout\<close>, with no
  flag set and an empty exception mask.
\<close>

definition filter_ostream_init :: filter_ostream where
  "filter_ostream_init =
     \<lparr>exceptions = {}, stream = None, rdbuf = cout_rdbuf, ios_state = {}\<rparr>"

text \<open>
  The selection of the compressor in \<^verbatim>\<open>open(file, mode, compression, level)\<close>
  (the chain of conditions before the sink is attached): the new stream after the push,
  or the exception.
\<close>

definition push_compressor ::
  "filtering_stream \<Rightarrow> string \<Rightarrow> string \<Rightarrow> int \<Rightarrow> exception + filtering_stream" where
  "push_compressor new_stream file compression level =
     (if compression = ''gz'' \<or> compression = ''gzip''
         \<or> (compression = ''''
             \<and> (ends_with file ''.gz'' \<or> ends_with file ''.gz~''))
      then (if level = - 1 then Inr (push new_stream (gzip_compressor None))
            else Inr (push new_stream (gzip_compressor (Some level))))
      else if compression = ''bz2'' \<or> compression = ''bzip2''
         \<or> (compression = ''''
             \<and> (ends_with file ''.bz2'' \<or> ends_with file ''.bz2~''))
      then (if level = - 1 then Inr (push new_stream (bzip2_compressor None))
            else Inr (push new_stream (bzip2_compressor (Some level))))
      else if compression = ''lzma'' \<or> compression = ''xz''
         \<or> (compression = ''''
             \<and> (ends_with file ''.xz'' \<or> ends_with file ''.xz~''))
      then (if level = - 1 then Inr (push new_stream (lzma_compressor None))
            else Inr (push new_stream (lzma_compressor (Some level))))
      else if compression \<noteq> '''' \<and> compression \<noteq> ''none''
      then Inl (Exception (''unknown filter compression '' @ compression))
      else Inr new_stream)"

text \<open>
  The end of both \<^verbatim>\<open>open\<close> functions: \<^verbatim>\<open>stream.reset(new_stream.release())\<close>, then
  \<^verbatim>\<open>rdbuf(stream->rdbuf())\<close>.
\<close>

definition install :: "filter_stream \<Rightarrow> filtering_stream \<Rightarrow> outcome" where
  "install this new_stream =
     set_rdbuf (this\<lparr>stream := Some new_stream\<rparr>) (filtering_rdbuf new_stream)"

text \<open>\<^verbatim>\<open>filter_ostream::open(const std::string & file_, mode, compression, level)\<close>; the
  parameter \<^verbatim>\<open>file_\<close> is written \<open>file0\<close>, the object before the call \<open>this0\<close>. The
  first statement, \<^verbatim>\<open>exceptions(ios::badbit | ios::failbit)\<close>, raises on a stream whose
  \<^verbatim>\<open>badbit\<close> or \<^verbatim>\<open>failbit\<close> is set, and nothing after it is run then.\<close>

definition filter_ostream_open ::
  "environment \<Rightarrow> filter_ostream \<Rightarrow> string \<Rightarrow> openmode \<Rightarrow> string \<Rightarrow> int \<Rightarrow> outcome" where
  "filter_ostream_open env this0 file0 mode compression level =
     (let r = set_exceptions this0 {badbit, failbit}
      in if thrown r \<noteq> None then r
         else
           let this = object r;
               file = (if file0 = '''' then ''/dev/null'' else file0)
           in case push_compressor [] file compression level of
                Inl e \<Rightarrow> \<lparr>object = this, opened = [], thrown = Some e\<rparr>
              | Inr new_stream \<Rightarrow>
                  if file = ''-''
                  then install this (push new_stream std_cout)
                  else if \<not> sink_is_open env (c_str file) mode
                  then \<lparr>object = this, opened = [(c_str file, mode)],
                         thrown = Some (Exception (''couldn't open file '' @ file))\<rparr>
                  else (install this (push new_stream (file_sink (c_str file) mode)))
                         \<lparr>opened := [(c_str file, mode)]\<rparr>)"

text \<open>
  The selection of the compressor in \<^verbatim>\<open>open(fd, mode, compression, level)\<close>: by the
  name alone.
\<close>

definition push_compressor_fd ::
  "filtering_stream \<Rightarrow> string \<Rightarrow> int \<Rightarrow> exception + filtering_stream" where
  "push_compressor_fd new_stream compression level =
     (if compression = ''gz'' \<or> compression = ''gzip''
      then (if level = - 1 then Inr (push new_stream (gzip_compressor None))
            else Inr (push new_stream (gzip_compressor (Some level))))
      else if compression = ''bz2'' \<or> compression = ''bzip2''
      then (if level = - 1 then Inr (push new_stream (bzip2_compressor None))
            else Inr (push new_stream (bzip2_compressor (Some level))))
      else if compression = ''lzma'' \<or> compression = ''xz''
      then (if level = - 1 then Inr (push new_stream (lzma_compressor None))
            else Inr (push new_stream (lzma_compressor (Some level))))
      else if compression \<noteq> '''' \<and> compression \<noteq> ''none''
      then Inl (Exception (''unknown filter compression '' @ compression))
      else Inr new_stream)"

text \<open>\<^verbatim>\<open>filter_ostream::open(int fd, mode, compression, level)\<close>, with the same first
  statement.\<close>

definition filter_ostream_open_fd ::
  "environment \<Rightarrow> filter_ostream \<Rightarrow> int \<Rightarrow> openmode \<Rightarrow> string \<Rightarrow> int \<Rightarrow> outcome" where
  "filter_ostream_open_fd env this0 fd mode compression level =
     (let r = set_exceptions this0 {badbit, failbit}
      in if thrown r \<noteq> None then r
         else
           let this = object r
           in case push_compressor_fd [] compression level of
                Inl e \<Rightarrow> \<lparr>object = this, opened = [], thrown = Some e\<rparr>
              | Inr new_stream \<Rightarrow>
                  install this
                    (push new_stream
                       (if BOOST_VERSION env < 104100 then file_descriptor_sink fd None
                        else file_descriptor_sink fd (Some never_close_handle))))"

text \<open>
  Modelled from the spec: the default arguments of both \<^verbatim>\<open>open\<close> functions are
  declared in \<^verbatim>\<open>filter_streams.h\<close>, which is not among the sources; the signatures are
  \<^verbatim>\<open>compression = ""\<close> and \<^verbatim>\<open>level = -1\<close>.
\<close>

definition default_compression :: string where
  "default_compression = ''''"

definition default_level :: int where
  "default_level = - 1"

text \<open>\<^verbatim>\<open>filter_ostream::filter_ostream(file, mode, compression, level)\<close>.\<close>

definition filter_ostream_file ::
  "environment \<Rightarrow> string \<Rightarrow> openmode \<Rightarrow> string \<Rightarrow> int \<Rightarrow> outcome" where
  "filter_ostream_file env file mode compression level =
     filter_ostream_open env filter_ostream_init file mode compression level"

text \<open>
  \<^verbatim>\<open>filter_ostream::filter_ostream(int fd, mode, compression, level)\<close>: its body is
  \<^verbatim>\<open>open(fd, mode)\<close>.
\<close>

definition filter_ostream_fd ::
  "environment \<Rightarrow> int \<Rightarrow> openmode \<Rightarrow> string \<Rightarrow> int \<Rightarrow> outcome" where
  "filter_ostream_fd env fd mode compression level =
     filter_ostream_open_fd env filter_ostream_init fd mode default_compression default_level"

text \<open>
  \<^verbatim>\<open>filter_ostream::close()\<close>: \<^verbatim>\<open>rdbuf(0)\<close>, which sets \<^verbatim>\<open>badbit\<close> and, once
  \<^verbatim>\<open>open\<close> has put \<^verbatim>\<open>badbit\<close> in the exception mask, raises.
\<close>

definition filter_ostream_close :: "filter_ostream \<Rightarrow> outcome" where
  "filter_ostream_close this = set_rdbuf this null_streambuf"

text \<open>
  The condition flags of a stream, as \<^verbatim>\<open>std::ios\<close> reads them: \<^verbatim>\<open>fail()\<close> holds when
  \<^verbatim>\<open>failbit\<close> or \<^verbatim>\<open>badbit\<close> is set, \<^verbatim>\<open>bad()\<close> when \<^verbatim>\<open>badbit\<close> is, \<^verbatim>\<open>eof()\<close> when
  \<^verbatim>\<open>eofbit\<close> is, and the stream read as a condition (\<^verbatim>\<open>if (*this)\<close>) is \<^verbatim>\<open>!fail()\<close>.
\<close>

definition fail :: "iostate \<Rightarrow> bool" where
  "fail rdstate = (failbit \<in> rdstate \<or> badbit \<in> rdstate)"

definition bad :: "iostate \<Rightarrow> bool" where
  "bad rdstate = (badbit \<in> rdstate)"

definition eof :: "iostate \<Rightarrow> bool" where
  "eof rdstate = (eofbit \<in> rdstate)"

definition as_bool :: "iostate \<Rightarrow> bool" where
  "as_bool rdstate = (\<not> fail rdstate)"

text \<open>
  \<^verbatim>\<open>filter_ostream::status()\<close>, on the flags of the stream: the status of an object
  \<open>this\<close> is \<open>status (ios_state this)\<close>.
\<close>

definition status :: "iostate \<Rightarrow> string" where
  "status rdstate =
     (if as_bool rdstate then ''good''
      else format ''%s%s%s''
             [if fail rdstate then '' fail'' else '''',
              if bad rdstate then '' bad'' else '''',
              if eof rdstate then '' eof'' else ''''])"

subsection \<open>filter_istream\<close>

text \<open>
  \<^verbatim>\<open>filter_istream::filter_istream()\<close>: bound to the buffer of \<^verbatim>\<open>std::cin\<close>, with no
  flag set and an empty exception mask.
\<close>

definition filter_istream_init :: filter_istream where
  "filter_istream_init =
     \<lparr>exceptions = {}, stream = None, rdbuf = cin_rdbuf, ios_state = {}\<rparr>"

text \<open>
  The decompressors \<^verbatim>\<open>filter_istream::open\<close> pushes: three tests on the file name,
  then three pushes, each under its own test.
\<close>

definition push_decompressors :: "filtering_stream \<Rightarrow> string \<Rightarrow> filtering_stream" where
  "push_decompressors new_stream file =
     (let gzip = (ends_with file ''.gz'' \<or> ends_with file ''.gz~'');
          bzip2 = (ends_with file ''.bz2'' \<or> ends_with file ''.bz2~'');
          lzma = (ends_with file ''.xz'' \<or> ends_with file ''.xz~'');
          s1 = (if gzip then push new_stream gzip_decompressor else new_stream);
          s2 = (if bzip2 then push s1 bzip2_decompressor else s1);
          s3 = (if lzma then push s2 lzma_decompressor else s2)
      in s3)"

text \<open>\<^verbatim>\<open>filter_istream::open(const std::string & file_, mode)\<close>; the parameter
  \<^verbatim>\<open>file_\<close> is written \<open>file0\<close>. It does not call \<^verbatim>\<open>exceptions\<close>.\<close>

definition filter_istream_open ::
  "environment \<Rightarrow> filter_istream \<Rightarrow> string \<Rightarrow> openmode \<Rightarrow> outcome" where
  "filter_istream_open env this file0 mode =
     (let file = (if file0 = '''' then ''/dev/null'' else file0);
          new_stream = push_decompressors [] file
      in if file = ''-''
         then install this (push new_stream std_cin)
         else if \<not> source_is_open env (c_str file) mode
         then \<lparr>object = this, opened = [(c_str file, mode)],
                thrown = Some (Exception
                  (format ''stream open failed for file %s: %s''
                     [c_str file0, strerror env (errno env (c_str file) mode)]))\<rparr>
         else (install this (push new_stream (file_source (c_str file) mode)))
                \<lparr>opened := [(c_str file, mode)]\<rparr>)"

text \<open>\<^verbatim>\<open>filter_istream::filter_istream(file, mode)\<close>.\<close>

definition filter_istream_file :: "environment \<Rightarrow> string \<Rightarrow> openmode \<Rightarrow> outcome" where
  "filter_istream_file env file mode = filter_istream_open env filter_istream_init file mode"

text \<open>\<^verbatim>\<open>filter_istream::close()\<close>: \<^verbatim>\<open>rdbuf(0)\<close>.\<close>

definition filter_istream_close :: "filter_istream \<Rightarrow> outcome" where
  "filter_istream_close this = set_rdbuf this null_streambuf"

subsection \<open>The status string as the specification words it\<close>

text \<open>
  The specification's reading of \<^verbatim>\<open>status()\<close>, to be compared with \<open>status\<close>:
  \<^verbatim>\<open>"good"\<close> if no failure, error or end-of-stream flag is set; otherwise the names
  of the flags that are set, in the order fail, bad, eof, joined by single spaces.
\<close>

fun space_joined :: "string list \<Rightarrow> string" where
  "space_joined [] = []"
| "space_joined [x] = x"
| "space_joined (x # y # ys) = x @ '' '' @ space_joined (y # ys)"

definition status_spec :: "iostate \<Rightarrow> string" where
  "status_spec rdstate =
     (if failbit \<notin> rdstate \<and> badbit \<notin> rdstate \<and> eofbit \<notin> rdstate then ''good''
      else space_joined
             ((if failbit \<in> rdstate then [''fail''] else [])
              @ (if badbit \<in> rdstate then [''bad''] else [])
              @ (if eofbit \<in> rdstate then [''eof''] else [])))"

subsection \<open>An environment for the examples\<close>

text \<open>
  Every path opens but those under \<^verbatim>\<open>/nonexistent/\<close>, where the error number is 2
  (\<^verbatim>\<open>ENOENT\<close>).
\<close>

definition example_env :: environment where
  "example_env =
     \<lparr>BOOST_VERSION = 104100,
      sink_is_open = (\<lambda>path mode. \<not> prefix ''/nonexistent/'' path),
      source_is_open = (\<lambda>path mode. \<not> prefix ''/nonexistent/'' path),
      errno = (\<lambda>path mode. 2),
      strerror = (\<lambda>e. if e = 2 then ''No such file or directory'' else ''Unknown error'')\<rparr>"

subsection \<open>Lemmas on strings\<close>

lemma rfind_from_le: "rfind_from str what i = npos \<or> rfind_from str what i \<le> i"
  by (induction i) auto

lemma rfind_from_start:
  assumes le: "length what \<le> length str" and bound: "length str < npos"
  shows "(rfind_from str what (length str - length what) = length str - length what)
         = suffix what str"
proof -
  have eq: "(take (length what) (drop (length str - length what) str) = what) = suffix what str"
  proof
    assume "take (length what) (drop (length str - length what) str) = what"
    then have "drop (length str - length what) str = what" using le by simp
    then show "suffix what str" by (metis suffix_drop)
  next
    assume "suffix what str"
    then obtain zs where "str = zs @ what" by (auto simp: suffix_def)
    then show "take (length what) (drop (length str - length what) str) = what" by simp
  qed
  show ?thesis
  proof (cases "length str - length what")
    case 0
    then show ?thesis using eq le by (auto simp: npos_def)
  next
    case (Suc i)
    have "rfind_from str what i = npos \<or> rfind_from str what i \<le> i" by (rule rfind_from_le)
    moreover have "Suc i < npos" using Suc bound by arith
    ultimately show ?thesis using Suc eq by auto
  qed
qed

lemma size_minus_nat:
  assumes "b \<le> a" and "a < npos"
  shows "size_minus a b = a - b"
proof -
  have less: "a - b < (2::nat) ^ 64"
    using assms by (simp add: npos_def)
  have "a + 2 ^ 64 - b = (a - b) + 2 ^ 64"
    using assms by arith
  then have "size_minus a b = ((a - b) + 2 ^ 64) mod 2 ^ 64"
    by (simp only: size_minus_def)
  also have "\<dots> = (a - b) mod 2 ^ 64"
    by (rule mod_add_self2)
  also have "\<dots> = a - b"
    using less by (rule mod_less)
  finally show ?thesis .
qed

lemma ends_with_suffix:
  assumes bound: "length str < npos"
  shows "ends_with str what = suffix what str"
proof (cases "length str < length what")
  case True
  then have "\<not> suffix what str" by (auto simp: suffix_def)
  then show ?thesis using True by (simp add: ends_with_def rfind_def)
next
  case False
  then have le: "length what \<le> length str" by simp
  have "length str - length what < npos" using bound by arith
  then show ?thesis
    using le bound rfind_from_start [OF le bound]
    by (auto simp: ends_with_def rfind_def size_minus_nat Let_def)
qed

lemma suffix_families_disjoint:
  "\<not> ((suffix ''.gz'' f \<or> suffix ''.gz~'' f) \<and> (suffix ''.bz2'' f \<or> suffix ''.bz2~'' f))"
  "\<not> ((suffix ''.gz'' f \<or> suffix ''.gz~'' f) \<and> (suffix ''.xz'' f \<or> suffix ''.xz~'' f))"
  "\<not> ((suffix ''.bz2'' f \<or> suffix ''.bz2~'' f) \<and> (suffix ''.xz'' f \<or> suffix ''.xz~'' f))"
  by (auto simp: suffix_def append_eq_append_conv2 append_eq_Cons_conv Cons_eq_append_conv)

subsection \<open>Suffix inference\<close>

text \<open>
  C6. Suffix inference matches exactly on the tail of the file name. For every name (of a
  length a \<^verbatim>\<open>std::string\<close> can have) and every suffix, \<open>ends_with\<close> holds exactly when
  the suffix is a suffix of the name; so with no compression name \<^verbatim>\<open>open\<close> pushes the
  gzip compressor exactly when the name ends in \<^verbatim>\<open>.gz\<close> or \<^verbatim>\<open>.gz~\<close>, and the input
  stream pushes the gzip decompressor exactly then; and no compressor or decompressor
  is inferred exactly when the name ends in none of the six suffixes. The witness has
  the names \<^verbatim>\<open>archive.gz~\<close> and \<^verbatim>\<open>archive.tar.gz\<close>, which select gzip, and
  \<^verbatim>\<open>archive.gzip\<close>, which selects nothing.
\<close>

theorem suffix_inference_exact:
  "length name < npos \<Longrightarrow>
     ends_with name what = suffix what name
   \<and> (push_compressor [] name '''' level
        = Inr [gzip_compressor (if level = - 1 then None else Some level)])
      = (suffix ''.gz'' name \<or> suffix ''.gz~'' name)
   \<and> (gzip_decompressor \<in> set (push_decompressors [] name))
      = (suffix ''.gz'' name \<or> suffix ''.gz~'' name)
   \<and> (push_compressor [] name '''' level = Inr [] \<and> push_decompressors [] name = [])
      = (\<not> suffix ''.gz'' name \<and> \<not> suffix ''.gz~'' name
         \<and> \<not> suffix ''.bz2'' name \<and> \<not> suffix ''.bz2~'' name
         \<and> \<not> suffix ''.xz'' name \<and> \<not> suffix ''.xz~'' name)"
  by (auto simp: ends_with_suffix push_compressor_def push_decompressors_def push_def Let_def)

theorem suffix_inference_exact_witness:
  "length ''archive.gz~'' < npos
   \<and> ends_with ''archive.gz~'' ''.gz~''
   \<and> push_compressor [] ''archive.gz~'' '''' (- 1) = Inr [gzip_compressor None]
   \<and> push_compressor [] ''archive.tar.gz'' '''' 9 = Inr [gzip_compressor (Some 9)]
   \<and> \<not> ends_with ''archive.gzip'' ''.gz''
   \<and> push_compressor [] ''archive.gzip'' '''' (- 1) = Inr []
   \<and> push_decompressors [] ''archive.gzip'' = []"
proof -
  have b1: "length ''archive.gz~'' < npos" and b2: "length ''archive.tar.gz'' < npos"
    and b3: "length ''archive.gzip'' < npos"
    by (simp_all add: npos_def)
  have s1: "suffix ''.gz~'' ''archive.gz~''" and s2: "suffix ''.gz'' ''archive.tar.gz''"
    by (simp_all add: suffix_to_prefix)
  have s3: "\<not> suffix ''.gz'' ''archive.gzip'' \<and> \<not> suffix ''.gz~'' ''archive.gzip''
         \<and> \<not> suffix ''.bz2'' ''archive.gzip'' \<and> \<not> suffix ''.bz2~'' ''archive.gzip''
         \<and> \<not> suffix ''.xz'' ''archive.gzip'' \<and> \<not> suffix ''.xz~'' ''archive.gzip''"
    by (simp add: suffix_to_prefix)
  from suffix_inference_exact [OF b1, of "''.gz~''" "- 1"] s1
  have "ends_with ''archive.gz~'' ''.gz~''
        \<and> push_compressor [] ''archive.gz~'' '''' (- 1) = Inr [gzip_compressor None]"
    by simp
  moreover from suffix_inference_exact [OF b2, of "''.gz''" 9] s2
  have "push_compressor [] ''archive.tar.gz'' '''' 9 = Inr [gzip_compressor (Some 9)]"
    by simp
  moreover from suffix_inference_exact [OF b3, of "''.gz''" "- 1"] s3
  have "\<not> ends_with ''archive.gzip'' ''.gz''
        \<and> push_compressor [] ''archive.gzip'' '''' (- 1) = Inr []
        \<and> push_decompressors [] ''archive.gzip'' = []"
    by blast
  ultimately show ?thesis using b1 by blast
qed

subsection \<open>Lemmas on the calls of the standard stream base\<close>

lemma set_exceptions_good:
  assumes "rdbuf this \<noteq> null_streambuf" and "\<not> fail (ios_state this)"
  shows "set_exceptions this {badbit, failbit}
           = \<lparr>object = this\<lparr>exceptions := {badbit, failbit}\<rparr>, opened = [], thrown = None\<rparr>"
proof -
  have "ios_state this \<inter> {badbit, failbit} = {}"
    using assms(2) by (auto simp: fail_def)
  then show ?thesis
    using assms(1) by (simp add: set_exceptions_def clear_def Let_def)
qed

lemma set_exceptions_thrown:
  "thrown (set_exceptions this {badbit, failbit})
     = (if fail (ios_state this) \<or> rdbuf this = null_streambuf
        then Some ios_base_failure else None)"
  by (auto simp: set_exceptions_def clear_def Let_def fail_def)

lemma set_exceptions_frame:
  "opened (set_exceptions this except) = []"
  "stream (object (set_exceptions this except)) = stream this"
  "rdbuf (object (set_exceptions this except)) = rdbuf this"
  "exceptions (object (set_exceptions this except)) = except"
  by (simp_all add: set_exceptions_def clear_def Let_def)

lemma install_eq:
  "install this new_stream
     = \<lparr>object = this\<lparr>stream := Some new_stream, rdbuf := filtering_rdbuf new_stream,
                        ios_state := {}\<rparr>,
        opened = [], thrown = None\<rparr>"
  by (simp add: install_def set_rdbuf_def clear_def Let_def)

lemma filter_ostream_open_failed:
  assumes "fail (ios_state this) \<or> rdbuf this = null_streambuf"
  shows "filter_ostream_open env this file0 mode compression level
           = set_exceptions this {badbit, failbit}"
    and "filter_ostream_open_fd env this fd mode compression level
           = set_exceptions this {badbit, failbit}"
  using assms
  by (simp_all add: filter_ostream_open_def filter_ostream_open_fd_def Let_def
      set_exceptions_thrown)

lemma filter_ostream_open_good:
  assumes "rdbuf this0 \<noteq> null_streambuf" and "\<not> fail (ios_state this0)"
  shows "filter_ostream_open env this0 file0 mode compression level =
     (let this = this0\<lparr>exceptions := {badbit, failbit}\<rparr>;
          file = (if file0 = '''' then ''/dev/null'' else file0)
      in case push_compressor [] file compression level of
           Inl e \<Rightarrow> \<lparr>object = this, opened = [], thrown = Some e\<rparr>
         | Inr new_stream \<Rightarrow>
             if file = ''-''
             then install this (push new_stream std_cout)
             else if \<not> sink_is_open env (c_str file) mode
             then \<lparr>object = this, opened = [(c_str file, mode)],
                    thrown = Some (Exception (''couldn't open file '' @ file))\<rparr>
             else (install this (push new_stream (file_sink (c_str file) mode)))
                    \<lparr>opened := [(c_str file, mode)]\<rparr>)"
  by (simp add: filter_ostream_open_def set_exceptions_good [OF assms] Let_def)

lemma filter_ostream_open_fd_good:
  assumes "rdbuf this0 \<noteq> null_streambuf" and "\<not> fail (ios_state this0)"
  shows "filter_ostream_open_fd env this0 fd mode compression level =
     (let this = this0\<lparr>exceptions := {badbit, failbit}\<rparr>
      in case push_compressor_fd [] compression level of
           Inl e \<Rightarrow> \<lparr>object = this, opened = [], thrown = Some e\<rparr>
         | Inr new_stream \<Rightarrow>
             install this
               (push new_stream
                  (if BOOST_VERSION env < 104100 then file_descriptor_sink fd None
                   else file_descriptor_sink fd (Some never_close_handle))))"
  by (simp add: filter_ostream_open_fd_def set_exceptions_good [OF assms] Let_def)

lemma fresh_streams_good:
  "rdbuf filter_ostream_init \<noteq> null_streambuf" "\<not> fail (ios_state filter_ostream_init)"
  "rdbuf filter_istream_init \<noteq> null_streambuf" "\<not> fail (ios_state filter_istream_init)"
  by (simp_all add: filter_ostream_init_def filter_istream_init_def fail_def)

subsection \<open>Closing, and opening a closed stream\<close>

text \<open>
  \<^verbatim>\<open>close()\<close> leaves the stream without a buffer and with \<^verbatim>\<open>badbit\<close> set. It raises
  when \<^verbatim>\<open>badbit\<close> is in the exception mask, as it is after any \<^verbatim>\<open>open\<close> of an output
  stream. An \<^verbatim>\<open>open\<close> of an output stream that was closed raises in its first
  statement and opens no file.
\<close>

lemma filter_ostream_close_eq:
  "filter_ostream_close this
     = \<lparr>object = this\<lparr>rdbuf := null_streambuf, ios_state := {badbit}\<rparr>,
        opened = [],
        thrown = (if badbit \<in> exceptions this then Some ios_base_failure else None)\<rparr>"
  by (simp add: filter_ostream_close_def set_rdbuf_def clear_def Let_def)

lemma open_on_closed_stream_raises:
  "filter_ostream_open env (object (filter_ostream_close this)) file0 mode compression level
     = \<lparr>object = this\<lparr>exceptions := {badbit, failbit}, rdbuf := null_streambuf,
                        ios_state := {badbit}\<rparr>,
        opened = [], thrown = Some ios_base_failure\<rparr>"
  by (simp add: filter_ostream_close_eq filter_ostream_open_def set_exceptions_def clear_def
      Let_def)

subsection \<open>Lemmas on the selection of the filters\<close>

lemma ends_with_eval:
  "length str < npos \<Longrightarrow> ends_with str what = prefix (rev what) (rev str)"
  by (simp add: ends_with_suffix suffix_to_prefix)

lemma c_str_no_NUL: "CHR 0x00 \<notin> set s \<Longrightarrow> c_str s = s"
  by (auto simp: c_str_def)

lemma push_compressor_unknown:
  "compression \<notin> {'''', ''none'', ''gz'', ''gzip'', ''bz2'', ''bzip2'', ''lzma'', ''xz''} \<Longrightarrow>
   push_compressor new_stream name compression level
     = Inl (Exception (''unknown filter compression '' @ compression))"
  by (simp add: push_compressor_def)

lemma push_compressor_none:
  "push_compressor new_stream name ''none'' level = Inr new_stream"
  by (simp add: push_compressor_def)

lemma push_compressor_empty:
  assumes "length name < npos"
  shows "push_compressor [] name '''' level =
     (if suffix ''.gz'' name \<or> suffix ''.gz~'' name
      then Inr [gzip_compressor (if level = - 1 then None else Some level)]
      else if suffix ''.bz2'' name \<or> suffix ''.bz2~'' name
      then Inr [bzip2_compressor (if level = - 1 then None else Some level)]
      else if suffix ''.xz'' name \<or> suffix ''.xz~'' name
      then Inr [lzma_compressor (if level = - 1 then None else Some level)]
      else Inr [])"
  by (simp add: push_compressor_def push_def ends_with_suffix [OF assms])

lemma push_decompressors_cases:
  assumes "length name < npos"
  shows "push_decompressors [] name \<in>
           {[], [gzip_decompressor], [bzip2_decompressor], [lzma_decompressor]}"
  using suffix_families_disjoint [of name]
  by (auto simp: push_decompressors_def push_def Let_def ends_with_suffix [OF assms])

lemma push_compressor_filters:
  "case push_compressor [] name compression level of
     Inl e \<Rightarrow> True
   | Inr new_stream \<Rightarrow> list_all is_filter new_stream \<and> length new_stream \<le> 1"
  by (simp add: push_compressor_def push_def)

lemma push_compressor_Inr:
  "push_compressor [] name compression level = Inr new_stream \<Longrightarrow>
   list_all is_filter new_stream \<and> length new_stream \<le> 1"
  using push_compressor_filters [of name compression level] by simp

subsection \<open>Unknown compression names\<close>

text \<open>
  C2. For every file name, opening an output stream with a compression name outside the
  vocabulary (the empty name, \<^verbatim>\<open>none\<close>, \<^verbatim>\<open>gz\<close>, \<^verbatim>\<open>gzip\<close>, \<^verbatim>\<open>bz2\<close>, \<^verbatim>\<open>bzip2\<close>,
  \<^verbatim>\<open>lzma\<close>, \<^verbatim>\<open>xz\<close>), such as \<^verbatim>\<open>bogus\<close>, raises the exception for an unknown
  compression, and raises it before any device is touched. This holds of the
  constructor, and of \<^verbatim>\<open>open\<close> on every stream that has a buffer and neither
  \<^verbatim>\<open>badbit\<close> nor \<^verbatim>\<open>failbit\<close> set (a stream as constructed, or as a successful
  \<^verbatim>\<open>open\<close> leaves it). On any stream at all the call raises, asks for no file to be
  opened, so that none is created or truncated, and leaves the stream the pipeline and
  the buffer it had; the exception is \<^verbatim>\<open>std::ios_base::failure\<close>, from the first
  statement of \<^verbatim>\<open>open\<close>, exactly on a stream that has failed or has no buffer.
\<close>

theorem unknown_compression_raises_before_open:
  "compression \<notin> {'''', ''none'', ''gz'', ''gzip'', ''bz2'', ''bzip2'', ''lzma'', ''xz''} \<Longrightarrow>
     filter_ostream_file env file0 mode compression level
       = \<lparr>object = filter_ostream_init\<lparr>exceptions := {badbit, failbit}\<rparr>,
          opened = [],
          thrown = Some (Exception (''unknown filter compression '' @ compression))\<rparr>
   \<and> (rdbuf this \<noteq> null_streambuf \<and> \<not> fail (ios_state this) \<longrightarrow>
        filter_ostream_open env this file0 mode compression level
          = \<lparr>object = this\<lparr>exceptions := {badbit, failbit}\<rparr>,
             opened = [],
             thrown = Some (Exception (''unknown filter compression '' @ compression))\<rparr>)
   \<and> opened (filter_ostream_open env this file0 mode compression level) = []
   \<and> thrown (filter_ostream_open env this file0 mode compression level) \<noteq> None
   \<and> stream (object (filter_ostream_open env this file0 mode compression level))
       = stream this
   \<and> rdbuf (object (filter_ostream_open env this file0 mode compression level))
       = rdbuf this
   \<and> (thrown (filter_ostream_open env this file0 mode compression level)
        = Some ios_base_failure)
      = (fail (ios_state this) \<or> rdbuf this = null_streambuf)"
proof -
  assume unknown:
    "compression \<notin> {'''', ''none'', ''gz'', ''gzip'', ''bz2'', ''bzip2'', ''lzma'', ''xz''}"
  have good: "filter_ostream_open env s file0 mode compression level
          = \<lparr>object = s\<lparr>exceptions := {badbit, failbit}\<rparr>,
             opened = [],
             thrown = Some (Exception (''unknown filter compression '' @ compression))\<rparr>"
    if "rdbuf s \<noteq> null_streambuf" and "\<not> fail (ios_state s)" for s
    by (simp add: filter_ostream_open_good [OF that] push_compressor_unknown [OF unknown]
        Let_def)
  have a: "filter_ostream_file env file0 mode compression level
       = \<lparr>object = filter_ostream_init\<lparr>exceptions := {badbit, failbit}\<rparr>,
          opened = [],
          thrown = Some (Exception (''unknown filter compression '' @ compression))\<rparr>"
    unfolding filter_ostream_file_def by (rule good) (rule fresh_streams_good)+
  have b: "rdbuf this \<noteq> null_streambuf \<and> \<not> fail (ios_state this) \<longrightarrow>
        filter_ostream_open env this file0 mode compression level
          = \<lparr>object = this\<lparr>exceptions := {badbit, failbit}\<rparr>,
             opened = [],
             thrown = Some (Exception (''unknown filter compression '' @ compression))\<rparr>"
    using good by blast
  have c: "opened (filter_ostream_open env this file0 mode compression level) = []
   \<and> thrown (filter_ostream_open env this file0 mode compression level) \<noteq> None
   \<and> stream (object (filter_ostream_open env this file0 mode compression level))
       = stream this
   \<and> rdbuf (object (filter_ostream_open env this file0 mode compression level))
       = rdbuf this
   \<and> (thrown (filter_ostream_open env this file0 mode compression level)
        = Some ios_base_failure)
      = (fail (ios_state this) \<or> rdbuf this = null_streambuf)"
  proof (cases "fail (ios_state this) \<or> rdbuf this = null_streambuf")
    case True
    then show ?thesis
      by (simp add: filter_ostream_open_failed set_exceptions_frame set_exceptions_thrown)
  next
    case False
    then have "rdbuf this \<noteq> null_streambuf" and "\<not> fail (ios_state this)"
      by simp_all
    then show ?thesis
      using False by (simp add: good)
  qed
  from a b c show ?thesis by blast
qed

theorem unknown_compression_raises_before_open_witness:
  "''bogus'' \<notin> {'''', ''none'', ''gz'', ''gzip'', ''bz2'', ''bzip2'', ''lzma'', ''xz''}
   \<and> filter_ostream_file example_env ''out.gz'' 0 ''bogus'' (- 1)
     = \<lparr>object = \<lparr>exceptions = {badbit, failbit}, stream = None, rdbuf = cout_rdbuf,
                    ios_state = {}\<rparr>,
        opened = [],
        thrown = Some (Exception ''unknown filter compression bogus'')\<rparr>
   \<and> rdbuf filter_ostream_init \<noteq> null_streambuf \<and> \<not> fail (ios_state filter_ostream_init)
   \<and> filter_ostream_open example_env filter_ostream_init ''out.gz'' 0 ''bogus'' (- 1)
     = \<lparr>object = \<lparr>exceptions = {badbit, failbit}, stream = None, rdbuf = cout_rdbuf,
                    ios_state = {}\<rparr>,
        opened = [],
        thrown = Some (Exception ''unknown filter compression bogus'')\<rparr>"
proof -
  have h: "''bogus'' \<notin> {'''', ''none'', ''gz'', ''gzip'', ''bz2'', ''bzip2'', ''lzma'', ''xz''}"
    by simp
  note n = unknown_compression_raises_before_open
             [OF h, of example_env "''out.gz''" 0 "- 1" filter_ostream_init]
  from n [THEN conjunct1] n [THEN conjunct2, THEN conjunct1] fresh_streams_good(1,2) h
  show ?thesis
    by (simp add: filter_ostream_init_def)
qed

subsection \<open>The explicit name before the suffix\<close>

text \<open>
  C3. The explicit compression name takes precedence over the suffix on output. For
  every file name, a compression name that is not empty decides the compressor alone,
  whatever the suffix of the file name: \<^verbatim>\<open>gz\<close> and \<^verbatim>\<open>gzip\<close> give gzip, \<^verbatim>\<open>bz2\<close> and
  \<^verbatim>\<open>bzip2\<close> give bzip2, \<^verbatim>\<open>lzma\<close> and \<^verbatim>\<open>xz\<close> give lzma, \<^verbatim>\<open>none\<close> gives no
  compressor, and any other name raises. So \<^verbatim>\<open>out.gz\<close>, which gets one gzip compressor
  with no compression name, gets no compressor and no exception with the name
  \<^verbatim>\<open>none\<close>. On a stream that has a buffer and neither \<^verbatim>\<open>badbit\<close> nor \<^verbatim>\<open>failbit\<close>
  set, \<^verbatim>\<open>open\<close> on \<^verbatim>\<open>out.gz\<close> installs the gzip compressor before the file sink with
  no compression name, the file sink alone with \<^verbatim>\<open>none\<close>, and with any other name that
  is not empty the compressor of that name before the file sink; the only other
  exception is the one of a file that does not open. The constructor on \<^verbatim>\<open>out.gz\<close>
  does the same.
\<close>

theorem explicit_name_beats_suffix:
  "(compression \<noteq> '''' \<longrightarrow>
      push_compressor [] name compression level
        = (if compression = ''gz'' \<or> compression = ''gzip''
           then Inr [gzip_compressor (if level = - 1 then None else Some level)]
           else if compression = ''bz2'' \<or> compression = ''bzip2''
           then Inr [bzip2_compressor (if level = - 1 then None else Some level)]
           else if compression = ''lzma'' \<or> compression = ''xz''
           then Inr [lzma_compressor (if level = - 1 then None else Some level)]
           else if compression = ''none'' then Inr []
           else Inl (Exception (''unknown filter compression '' @ compression))))
   \<and> push_compressor [] ''out.gz'' '''' level
       = Inr [gzip_compressor (if level = - 1 then None else Some level)]
   \<and> push_compressor [] ''out.gz'' ''none'' level = Inr []
   \<and> (rdbuf this \<noteq> null_streambuf \<and> \<not> fail (ios_state this) \<longrightarrow>
        filter_ostream_open env this ''out.gz'' mode '''' level
          = (if sink_is_open env ''out.gz'' mode
             then \<lparr>object = this
                      \<lparr>exceptions := {badbit, failbit},
                       stream := Some [gzip_compressor (if level = - 1 then None else Some level),
                                       file_sink ''out.gz'' mode],
                       rdbuf := filtering_rdbuf
                                  [gzip_compressor (if level = - 1 then None else Some level),
                                   file_sink ''out.gz'' mode],
                       ios_state := {}\<rparr>,
                    opened = [(''out.gz'', mode)], thrown = None\<rparr>
             else \<lparr>object = this\<lparr>exceptions := {badbit, failbit}\<rparr>,
                    opened = [(''out.gz'', mode)],
                    thrown = Some (Exception ''couldn't open file out.gz'')\<rparr>)
        \<and> filter_ostream_open env this ''out.gz'' mode ''none'' level
          = (if sink_is_open env ''out.gz'' mode
             then \<lparr>object = this
                      \<lparr>exceptions := {badbit, failbit},
                       stream := Some [file_sink ''out.gz'' mode],
                       rdbuf := filtering_rdbuf [file_sink ''out.gz'' mode],
                       ios_state := {}\<rparr>,
                    opened = [(''out.gz'', mode)], thrown = None\<rparr>
             else \<lparr>object = this\<lparr>exceptions := {badbit, failbit}\<rparr>,
                    opened = [(''out.gz'', mode)],
                    thrown = Some (Exception ''couldn't open file out.gz'')\<rparr>)
        \<and> (compression \<noteq> '''' \<and> sink_is_open env ''out.gz'' mode \<longrightarrow>
             (case push_compressor_fd [] compression level of
                Inl e \<Rightarrow>
                  filter_ostream_open env this ''out.gz'' mode compression level
                    = \<lparr>object = this\<lparr>exceptions := {badbit, failbit}\<rparr>,
                       opened = [], thrown = Some e\<rparr>
              | Inr fs \<Rightarrow>
                  filter_ostream_open env this ''out.gz'' mode compression level
                    = \<lparr>object = this
                         \<lparr>exceptions := {badbit, failbit},
                          stream := Some (fs @ [file_sink ''out.gz'' mode]),
                          rdbuf := filtering_rdbuf (fs @ [file_sink ''out.gz'' mode]),
                          ios_state := {}\<rparr>,
                       opened = [(''out.gz'', mode)], thrown = None\<rparr>)))
   \<and> filter_ostream_file env ''out.gz'' mode '''' level
       = (if sink_is_open env ''out.gz'' mode
          then \<lparr>object =
                   \<lparr>exceptions = {badbit, failbit},
                    stream = Some [gzip_compressor (if level = - 1 then None else Some level),
                                   file_sink ''out.gz'' mode],
                    rdbuf = filtering_rdbuf
                              [gzip_compressor (if level = - 1 then None else Some level),
                               file_sink ''out.gz'' mode],
                    ios_state = {}\<rparr>,
                 opened = [(''out.gz'', mode)], thrown = None\<rparr>
          else \<lparr>object = \<lparr>exceptions = {badbit, failbit}, stream = None,
                           rdbuf = cout_rdbuf, ios_state = {}\<rparr>,
                 opened = [(''out.gz'', mode)],
                 thrown = Some (Exception ''couldn't open file out.gz'')\<rparr>)
   \<and> filter_ostream_file env ''out.gz'' mode ''none'' level
       = (if sink_is_open env ''out.gz'' mode
          then \<lparr>object =
                   \<lparr>exceptions = {badbit, failbit},
                    stream = Some [file_sink ''out.gz'' mode],
                    rdbuf = filtering_rdbuf [file_sink ''out.gz'' mode],
                    ios_state = {}\<rparr>,
                 opened = [(''out.gz'', mode)], thrown = None\<rparr>
          else \<lparr>object = \<lparr>exceptions = {badbit, failbit}, stream = None,
                           rdbuf = cout_rdbuf, ios_state = {}\<rparr>,
                 opened = [(''out.gz'', mode)],
                 thrown = Some (Exception ''couldn't open file out.gz'')\<rparr>)"
proof -
  have a: "compression \<noteq> '''' \<longrightarrow>
      push_compressor [] name compression level
        = (if compression = ''gz'' \<or> compression = ''gzip''
           then Inr [gzip_compressor (if level = - 1 then None else Some level)]
           else if compression = ''bz2'' \<or> compression = ''bzip2''
           then Inr [bzip2_compressor (if level = - 1 then None else Some level)]
           else if compression = ''lzma'' \<or> compression = ''xz''
           then Inr [lzma_compressor (if level = - 1 then None else Some level)]
           else if compression = ''none'' then Inr []
           else Inl (Exception (''unknown filter compression '' @ compression)))"
    by (simp add: push_compressor_def push_def)
  have b: "push_compressor [] ''out.gz'' '''' level
       = Inr [gzip_compressor (if level = - 1 then None else Some level)]"
    by (simp add: push_compressor_def push_def ends_with_eval npos_def)
  have c: "push_compressor [] ''out.gz'' ''none'' level = Inr []"
    by (rule push_compressor_none)
  have byname: "push_compressor [] ''out.gz'' compression level
                  = push_compressor_fd [] compression level" if "compression \<noteq> ''''"
    using that by (simp add: push_compressor_def push_compressor_fd_def)
  have inferred: "filter_ostream_open env s ''out.gz'' mode '''' level
          = (if sink_is_open env ''out.gz'' mode
             then \<lparr>object = s
                      \<lparr>exceptions := {badbit, failbit},
                       stream := Some [gzip_compressor (if level = - 1 then None else Some level),
                                       file_sink ''out.gz'' mode],
                       rdbuf := filtering_rdbuf
                                  [gzip_compressor (if level = - 1 then None else Some level),
                                   file_sink ''out.gz'' mode],
                       ios_state := {}\<rparr>,
                    opened = [(''out.gz'', mode)], thrown = None\<rparr>
             else \<lparr>object = s\<lparr>exceptions := {badbit, failbit}\<rparr>,
                    opened = [(''out.gz'', mode)],
                    thrown = Some (Exception ''couldn't open file out.gz'')\<rparr>)"
    if "rdbuf s \<noteq> null_streambuf" and "\<not> fail (ios_state s)" for s
    by (simp add: filter_ostream_open_good [OF that] b install_eq c_str_def push_def Let_def)
  have explicit: "filter_ostream_open env s ''out.gz'' mode ''none'' level
          = (if sink_is_open env ''out.gz'' mode
             then \<lparr>object = s
                      \<lparr>exceptions := {badbit, failbit},
                       stream := Some [file_sink ''out.gz'' mode],
                       rdbuf := filtering_rdbuf [file_sink ''out.gz'' mode],
                       ios_state := {}\<rparr>,
                    opened = [(''out.gz'', mode)], thrown = None\<rparr>
             else \<lparr>object = s\<lparr>exceptions := {badbit, failbit}\<rparr>,
                    opened = [(''out.gz'', mode)],
                    thrown = Some (Exception ''couldn't open file out.gz'')\<rparr>)"
    if "rdbuf s \<noteq> null_streambuf" and "\<not> fail (ios_state s)" for s
    by (simp add: filter_ostream_open_good [OF that] c install_eq c_str_def push_def Let_def)
  have d: "rdbuf this \<noteq> null_streambuf \<and> \<not> fail (ios_state this) \<longrightarrow>
        filter_ostream_open env this ''out.gz'' mode '''' level
          = (if sink_is_open env ''out.gz'' mode
             then \<lparr>object = this
                      \<lparr>exceptions := {badbit, failbit},
                       stream := Some [gzip_compressor (if level = - 1 then None else Some level),
                                       file_sink ''out.gz'' mode],
                       rdbuf := filtering_rdbuf
                                  [gzip_compressor (if level = - 1 then None else Some level),
                                   file_sink ''out.gz'' mode],
                       ios_state := {}\<rparr>,
                    opened = [(''out.gz'', mode)], thrown = None\<rparr>
             else \<lparr>object = this\<lparr>exceptions := {badbit, failbit}\<rparr>,
                    opened = [(''out.gz'', mode)],
                    thrown = Some (Exception ''couldn't open file out.gz'')\<rparr>)"
    using inferred by blast
  have e: "rdbuf this \<noteq> null_streambuf \<and> \<not> fail (ios_state this) \<longrightarrow>
        filter_ostream_open env this ''out.gz'' mode ''none'' level
          = (if sink_is_open env ''out.gz'' mode
             then \<lparr>object = this
                      \<lparr>exceptions := {badbit, failbit},
                       stream := Some [file_sink ''out.gz'' mode],
                       rdbuf := filtering_rdbuf [file_sink ''out.gz'' mode],
                       ios_state := {}\<rparr>,
                    opened = [(''out.gz'', mode)], thrown = None\<rparr>
             else \<lparr>object = this\<lparr>exceptions := {badbit, failbit}\<rparr>,
                    opened = [(''out.gz'', mode)],
                    thrown = Some (Exception ''couldn't open file out.gz'')\<rparr>)"
    using explicit by blast
  have g: "filter_ostream_file env ''out.gz'' mode '''' level
       = (if sink_is_open env ''out.gz'' mode
          then \<lparr>object =
                   \<lparr>exceptions = {badbit, failbit},
                    stream = Some [gzip_compressor (if level = - 1 then None else Some level),
                                   file_sink ''out.gz'' mode],
                    rdbuf = filtering_rdbuf
                              [gzip_compressor (if level = - 1 then None else Some level),
                               file_sink ''out.gz'' mode],
                    ios_state = {}\<rparr>,
                 opened = [(''out.gz'', mode)], thrown = None\<rparr>
          else \<lparr>object = \<lparr>exceptions = {badbit, failbit}, stream = None,
                           rdbuf = cout_rdbuf, ios_state = {}\<rparr>,
                 opened = [(''out.gz'', mode)],
                 thrown = Some (Exception ''couldn't open file out.gz'')\<rparr>)"
    by (simp only: filter_ostream_file_def inferred [OF fresh_streams_good(1,2)])
      (simp add: filter_ostream_init_def)
  have h: "filter_ostream_file env ''out.gz'' mode ''none'' level
       = (if sink_is_open env ''out.gz'' mode
          then \<lparr>object =
                   \<lparr>exceptions = {badbit, failbit},
                    stream = Some [file_sink ''out.gz'' mode],
                    rdbuf = filtering_rdbuf [file_sink ''out.gz'' mode],
                    ios_state = {}\<rparr>,
                 opened = [(''out.gz'', mode)], thrown = None\<rparr>
          else \<lparr>object = \<lparr>exceptions = {badbit, failbit}, stream = None,
                           rdbuf = cout_rdbuf, ios_state = {}\<rparr>,
                 opened = [(''out.gz'', mode)],
                 thrown = Some (Exception ''couldn't open file out.gz'')\<rparr>)"
    by (simp only: filter_ostream_file_def explicit [OF fresh_streams_good(1,2)])
      (simp add: filter_ostream_init_def)
  have f: "rdbuf this \<noteq> null_streambuf \<and> \<not> fail (ios_state this) \<longrightarrow>
        (compression \<noteq> '''' \<and> sink_is_open env ''out.gz'' mode \<longrightarrow>
             (case push_compressor_fd [] compression level of
                Inl e \<Rightarrow>
                  filter_ostream_open env this ''out.gz'' mode compression level
                    = \<lparr>object = this\<lparr>exceptions := {badbit, failbit}\<rparr>,
                       opened = [], thrown = Some e\<rparr>
              | Inr fs \<Rightarrow>
                  filter_ostream_open env this ''out.gz'' mode compression level
                    = \<lparr>object = this
                         \<lparr>exceptions := {badbit, failbit},
                          stream := Some (fs @ [file_sink ''out.gz'' mode]),
                          rdbuf := filtering_rdbuf (fs @ [file_sink ''out.gz'' mode]),
                          ios_state := {}\<rparr>,
                       opened = [(''out.gz'', mode)], thrown = None\<rparr>))"
    by (simp add: filter_ostream_open_good byname install_eq c_str_def push_def Let_def
        split: sum.split)
  from a b c d e f g h show ?thesis by blast
qed

theorem explicit_name_beats_suffix_witness:
  "rdbuf filter_ostream_init \<noteq> null_streambuf \<and> \<not> fail (ios_state filter_ostream_init)
   \<and> filter_ostream_open example_env filter_ostream_init ''out.gz'' 0 '''' 6
     = \<lparr>object = \<lparr>exceptions = {badbit, failbit},
                    stream = Some [gzip_compressor (Some 6), file_sink ''out.gz'' 0],
                    rdbuf = filtering_rdbuf [gzip_compressor (Some 6), file_sink ''out.gz'' 0],
                    ios_state = {}\<rparr>,
        opened = [(''out.gz'', 0)], thrown = None\<rparr>
   \<and> filter_ostream_open example_env filter_ostream_init ''out.gz'' 0 ''none'' 6
     = \<lparr>object = \<lparr>exceptions = {badbit, failbit},
                    stream = Some [file_sink ''out.gz'' 0],
                    rdbuf = filtering_rdbuf [file_sink ''out.gz'' 0],
                    ios_state = {}\<rparr>,
        opened = [(''out.gz'', 0)], thrown = None\<rparr>
   \<and> filter_ostream_open example_env filter_ostream_init ''out.gz'' 0 ''bz2'' 6
     = \<lparr>object = \<lparr>exceptions = {badbit, failbit},
                    stream = Some [bzip2_compressor (Some 6), file_sink ''out.gz'' 0],
                    rdbuf = filtering_rdbuf [bzip2_compressor (Some 6), file_sink ''out.gz'' 0],
                    ios_state = {}\<rparr>,
        opened = [(''out.gz'', 0)], thrown = None\<rparr>
   \<and> push_compressor [] ''out.gz'' ''bz2'' 6 = Inr [bzip2_compressor (Some 6)]"
proof -
  have s: "sink_is_open example_env ''out.gz'' 0"
    by (simp add: example_env_def)
  have sel: "push_compressor_fd [] ''bz2'' 6 = Inr [bzip2_compressor (Some 6)]"
    by (simp add: push_compressor_fd_def push_def)
  note n = explicit_name_beats_suffix
             [of "''bz2''" "''out.gz''" 6 filter_ostream_init example_env 0]
  note good = fresh_streams_good(1,2)
  from n [THEN conjunct1]
  have p: "push_compressor [] ''out.gz'' ''bz2'' 6 = Inr [bzip2_compressor (Some 6)]"
    by simp
  from n [THEN conjunct2, THEN conjunct2, THEN conjunct2, THEN conjunct1] good
  have o: "filter_ostream_open example_env filter_ostream_init ''out.gz'' 0 '''' 6
     = \<lparr>object = filter_ostream_init
              \<lparr>exceptions := {badbit, failbit},
               stream := Some [gzip_compressor (Some 6), file_sink ''out.gz'' 0],
               rdbuf := filtering_rdbuf [gzip_compressor (Some 6), file_sink ''out.gz'' 0],
               ios_state := {}\<rparr>,
        opened = [(''out.gz'', 0)], thrown = None\<rparr>"
    and q: "filter_ostream_open example_env filter_ostream_init ''out.gz'' 0 ''none'' 6
     = \<lparr>object = filter_ostream_init
              \<lparr>exceptions := {badbit, failbit},
               stream := Some [file_sink ''out.gz'' 0],
               rdbuf := filtering_rdbuf [file_sink ''out.gz'' 0],
               ios_state := {}\<rparr>,
        opened = [(''out.gz'', 0)], thrown = None\<rparr>"
    and r: "filter_ostream_open example_env filter_ostream_init ''out.gz'' 0 ''bz2'' 6
     = \<lparr>object = filter_ostream_init
              \<lparr>exceptions := {badbit, failbit},
               stream := Some [bzip2_compressor (Some 6), file_sink ''out.gz'' 0],
               rdbuf := filtering_rdbuf [bzip2_compressor (Some 6), file_sink ''out.gz'' 0],
               ios_state := {}\<rparr>,
        opened = [(''out.gz'', 0)], thrown = None\<rparr>"
    using s sel by simp_all
  from o q r p good show ?thesis
    by (simp add: filter_ostream_init_def)
qed

text \<open>
  C4 as stated fails: with the empty compression name the compressor is inferred from
  the suffix, so \<^verbatim>\<open>out.gz\<close> opened for output with no compression name gets a gzip
  compressor.
\<close>

theorem empty_name_infers_from_suffix:
  "push_compressor [] ''out.gz'' '''' (- 1) = Inr [gzip_compressor None]
   \<and> filter_ostream_open example_env filter_ostream_init ''out.gz'' 0 '''' (- 1)
     = \<lparr>object = \<lparr>exceptions = {badbit, failbit},
                    stream = Some [gzip_compressor None, file_sink ''out.gz'' 0],
                    rdbuf = filtering_rdbuf [gzip_compressor None, file_sink ''out.gz'' 0],
                    ios_state = {}\<rparr>,
        opened = [(''out.gz'', 0)], thrown = None\<rparr>"
proof -
  have pc: "push_compressor [] ''out.gz'' '''' (- 1) = Inr [gzip_compressor None]"
    by (simp add: push_compressor_def push_def ends_with_eval npos_def)
  have s: "sink_is_open example_env ''out.gz'' 0"
    by (simp add: example_env_def)
  have "filter_ostream_open example_env filter_ostream_init ''out.gz'' 0 '''' (- 1)
     = \<lparr>object = filter_ostream_init
              \<lparr>exceptions := {badbit, failbit},
               stream := Some [gzip_compressor None, file_sink ''out.gz'' 0],
               rdbuf := filtering_rdbuf [gzip_compressor None, file_sink ''out.gz'' 0],
               ios_state := {}\<rparr>,
        opened = [(''out.gz'', 0)], thrown = None\<rparr>"
    using s
    by (simp add: filter_ostream_open_good [OF fresh_streams_good(1,2)] pc install_eq
        c_str_def push_def Let_def)
  with pc show ?thesis
    by (simp add: filter_ostream_init_def)
qed

text \<open>
  C4, amended. For the output direction, when the explicit compression name is
  \<^verbatim>\<open>none\<close> no compressor is pushed, for every file name, also one that carries a
  compression suffix: an \<^verbatim>\<open>open\<close> that succeeds leaves a pipeline of the sink alone.
  When the explicit name is empty, no compressor is pushed exactly when the file name
  ends in none of \<^verbatim>\<open>.gz\<close>, \<^verbatim>\<open>.gz~\<close>, \<^verbatim>\<open>.bz2\<close>, \<^verbatim>\<open>.bz2~\<close>, \<^verbatim>\<open>.xz\<close>, \<^verbatim>\<open>.xz~\<close>.
\<close>

theorem none_or_suffix_decides_compressor:
  "push_compressor [] name ''none'' level = Inr []
   \<and> (thrown (filter_ostream_open env this file0 mode ''none'' level) = None \<longrightarrow>
        (\<exists>sink. stream (object (filter_ostream_open env this file0 mode ''none'' level))
                  = Some [sink] \<and> \<not> is_filter sink))
   \<and> (length name < npos \<longrightarrow>
        (push_compressor [] name '''' level = Inr [])
        = (\<not> suffix ''.gz'' name \<and> \<not> suffix ''.gz~'' name
           \<and> \<not> suffix ''.bz2'' name \<and> \<not> suffix ''.bz2~'' name
           \<and> \<not> suffix ''.xz'' name \<and> \<not> suffix ''.xz~'' name))"
proof -
  have a: "push_compressor [] name ''none'' level = Inr []"
    by (rule push_compressor_none)
  have b: "thrown (filter_ostream_open env this file0 mode ''none'' level) = None \<longrightarrow>
        (\<exists>sink. stream (object (filter_ostream_open env this file0 mode ''none'' level))
                  = Some [sink] \<and> \<not> is_filter sink)"
  proof (cases "fail (ios_state this) \<or> rdbuf this = null_streambuf")
    case True
    then show ?thesis
      by (simp add: filter_ostream_open_failed set_exceptions_thrown)
  next
    case False
    then have "rdbuf this \<noteq> null_streambuf" and "\<not> fail (ios_state this)"
      by simp_all
    then show ?thesis
      by (simp add: filter_ostream_open_good push_compressor_none install_eq Let_def push_def)
  qed
  have c: "length name < npos \<longrightarrow>
        (push_compressor [] name '''' level = Inr [])
        = (\<not> suffix ''.gz'' name \<and> \<not> suffix ''.gz~'' name
           \<and> \<not> suffix ''.bz2'' name \<and> \<not> suffix ''.bz2~'' name
           \<and> \<not> suffix ''.xz'' name \<and> \<not> suffix ''.xz~'' name)"
    by (simp add: push_compressor_empty)
  from a b c show ?thesis by blast
qed

theorem none_or_suffix_decides_compressor_witness:
  "push_compressor [] ''out.gz'' ''none'' 6 = Inr []
   \<and> thrown (filter_ostream_open example_env filter_ostream_init ''out.gz'' 0 ''none'' 6) = None
   \<and> (\<exists>sink. stream (object
          (filter_ostream_open example_env filter_ostream_init ''out.gz'' 0 ''none'' 6))
        = Some [sink] \<and> \<not> is_filter sink)
   \<and> length ''out.gz'' < npos
   \<and> push_compressor [] ''out.gz'' '''' 6 \<noteq> Inr []"
proof -
  have s: "sink_is_open example_env ''out.gz'' 0"
    by (simp add: example_env_def)
  have t: "thrown (filter_ostream_open example_env filter_ostream_init ''out.gz'' 0 ''none'' 6)
           = None"
    using s
    by (simp add: filter_ostream_open_good [OF fresh_streams_good(1,2)] push_compressor_none
        install_eq c_str_def Let_def)
  have b: "length ''out.gz'' < npos"
    by (simp add: npos_def)
  have s: "suffix ''.gz'' ''out.gz''"
    by (simp add: suffix_to_prefix)
  from none_or_suffix_decides_compressor
         [of "''out.gz''" 6 example_env filter_ostream_init "''out.gz''" 0] t b s
  show ?thesis by blast
qed

subsection \<open>At most one decompressor\<close>

text \<open>
  C10. For every file name (of a length a \<^verbatim>\<open>std::string\<close> can have) at most one of the
  three tests of \<^verbatim>\<open>filter_istream::open\<close> holds (ends in \<^verbatim>\<open>.gz\<close> or \<^verbatim>\<open>.gz~\<close>, in
  \<^verbatim>\<open>.bz2\<close> or \<^verbatim>\<open>.bz2~\<close>, in \<^verbatim>\<open>.xz\<close> or \<^verbatim>\<open>.xz~\<close>), so every pipeline that
  \<^verbatim>\<open>filter_istream::open\<close> installs has at most one decompressor: two pushes never
  happen in one call.
\<close>

theorem at_most_one_decompressor:
  assumes "length file0 < npos"
  shows "\<not> ((ends_with file0 ''.gz'' \<or> ends_with file0 ''.gz~'')
            \<and> (ends_with file0 ''.bz2'' \<or> ends_with file0 ''.bz2~''))
       \<and> \<not> ((ends_with file0 ''.gz'' \<or> ends_with file0 ''.gz~'')
            \<and> (ends_with file0 ''.xz'' \<or> ends_with file0 ''.xz~''))
       \<and> \<not> ((ends_with file0 ''.bz2'' \<or> ends_with file0 ''.bz2~'')
            \<and> (ends_with file0 ''.xz'' \<or> ends_with file0 ''.xz~''))
       \<and> (thrown (filter_istream_open env this file0 mode) = None \<longrightarrow>
            (\<exists>p. stream (object (filter_istream_open env this file0 mode)) = Some p
                 \<and> length (filters p) \<le> 1))"
proof -
  have excl: "\<not> ((ends_with file0 ''.gz'' \<or> ends_with file0 ''.gz~'')
            \<and> (ends_with file0 ''.bz2'' \<or> ends_with file0 ''.bz2~''))
       \<and> \<not> ((ends_with file0 ''.gz'' \<or> ends_with file0 ''.gz~'')
            \<and> (ends_with file0 ''.xz'' \<or> ends_with file0 ''.xz~''))
       \<and> \<not> ((ends_with file0 ''.bz2'' \<or> ends_with file0 ''.bz2~'')
            \<and> (ends_with file0 ''.xz'' \<or> ends_with file0 ''.xz~''))"
    using suffix_families_disjoint [of file0] by (simp add: ends_with_suffix [OF assms])
  define name where "name = (if file0 = '''' then ''/dev/null'' else file0)"
  have "length name < npos"
    using assms by (simp add: name_def npos_def)
  then have "push_decompressors [] name \<in>
           {[], [gzip_decompressor], [bzip2_decompressor], [lzma_decompressor]}"
    by (rule push_decompressors_cases)
  then have "thrown (filter_istream_open env this file0 mode) = None \<longrightarrow>
            (\<exists>p. stream (object (filter_istream_open env this file0 mode)) = Some p
                 \<and> length (filters p) \<le> 1)"
    by (auto simp: filter_istream_open_def Let_def install_eq push_def filters_def
          name_def [symmetric])
  with excl show ?thesis by blast
qed

theorem at_most_one_decompressor_witness:
  "length ''data.bz2'' < npos
   \<and> filter_istream_open example_env filter_istream_init ''data.bz2'' 0
     = \<lparr>object = \<lparr>exceptions = {},
                    stream = Some [bzip2_decompressor, file_source ''data.bz2'' 0],
                    rdbuf = filtering_rdbuf [bzip2_decompressor, file_source ''data.bz2'' 0],
                    ios_state = {}\<rparr>,
        opened = [(''data.bz2'', 0)], thrown = None\<rparr>
   \<and> \<not> ends_with ''data.bz2'' ''.gz'' \<and> \<not> ends_with ''data.bz2'' ''.xz''
   \<and> (\<exists>p. stream (object (filter_istream_open example_env filter_istream_init ''data.bz2'' 0))
             = Some p \<and> length (filters p) \<le> 1)"
proof -
  have b: "length ''data.bz2'' < npos"
    by (simp add: npos_def)
  have e: "ends_with ''data.bz2'' ''.bz2''"
    by (simp add: ends_with_eval npos_def)
  have r: "filter_istream_open example_env filter_istream_init ''data.bz2'' 0
     = \<lparr>object = \<lparr>exceptions = {},
                    stream = Some [bzip2_decompressor, file_source ''data.bz2'' 0],
                    rdbuf = filtering_rdbuf [bzip2_decompressor, file_source ''data.bz2'' 0],
                    ios_state = {}\<rparr>,
        opened = [(''data.bz2'', 0)], thrown = None\<rparr>"
    by (simp add: filter_istream_open_def filter_istream_init_def example_env_def install_eq
        push_decompressors_def push_def c_str_def Let_def ends_with_eval npos_def)
  then have t: "thrown (filter_istream_open example_env filter_istream_init ''data.bz2'' 0) = None"
    by simp
  from at_most_one_decompressor [OF b, of example_env filter_istream_init 0] t e b r
  show ?thesis by blast
qed

subsection \<open>The status string\<close>


text \<open>
  C5 as stated fails. With the end-of-stream flag alone \<^verbatim>\<open>status()\<close> is \<^verbatim>\<open>"good"\<close>,
  where the claim has \<^verbatim>\<open>"eof"\<close>; with the failure flag alone it is \<^verbatim>\<open>" fail"\<close>, with a
  leading space, where the claim has \<^verbatim>\<open>"fail"\<close>.
\<close>

theorem status_differs_from_spec:
  "status {eofbit} = ''good'' \<and> status_spec {eofbit} = ''eof''
   \<and> status {failbit} = '' fail'' \<and> status_spec {failbit} = ''fail''"
  by (simp add: status_def status_spec_def as_bool_def fail_def bad_def eof_def)

text \<open>
  C5, amended. \<^verbatim>\<open>status()\<close> returns exactly \<^verbatim>\<open>"good"\<close> when neither the failure nor
  the bad flag is set, whatever the end-of-stream flag is. Otherwise it returns exactly
  \<^verbatim>\<open>" fail"\<close>, followed by \<^verbatim>\<open>" bad"\<close> when the bad flag is set, followed by
  \<^verbatim>\<open>" eof"\<close> when the end-of-stream flag is set: the substrings come in the order
  fail, bad, eof, each after one space, so that the string starts with a space and has
  no trailing space (\<^verbatim>\<open>" fail"\<close>, \<^verbatim>\<open>" fail bad"\<close>, \<^verbatim>\<open>" fail bad eof"\<close>,
  \<^verbatim>\<open>" fail eof"\<close>).
\<close>

theorem status_strings:
  "status rdstate =
     (if failbit \<notin> rdstate \<and> badbit \<notin> rdstate then ''good''
      else '' fail'' @ (if badbit \<in> rdstate then '' bad'' else '''')
             @ (if eofbit \<in> rdstate then '' eof'' else ''''))"
  by (simp add: status_def as_bool_def fail_def bad_def eof_def)

theorem status_strings_witness:
  "status {} = ''good''
   \<and> status {failbit} = '' fail''
   \<and> status {badbit} = '' fail bad''
   \<and> status {failbit, badbit, eofbit} = '' fail bad eof''
   \<and> status {failbit, eofbit} = '' fail eof''"
  using status_strings [of "{}"] status_strings [of "{failbit}"] status_strings [of "{badbit}"]
    status_strings [of "{failbit, badbit, eofbit}"] status_strings [of "{failbit, eofbit}"]
  by simp

subsection \<open>A failed open\<close>

text \<open>
  C7 as stated fails: a failed \<^verbatim>\<open>open\<close> does not tear the prior pipeline down. An
  output stream opened on \<^verbatim>\<open>a.txt\<close> and then opened again with the compression
  \<^verbatim>\<open>bogus\<close> raises and still owns, and writes through, the pipeline on \<^verbatim>\<open>a.txt\<close>; an
  input stream opened on \<^verbatim>\<open>a.txt\<close> and then on a path that does not open raises and
  still owns, and reads through, the pipeline on \<^verbatim>\<open>a.txt\<close>.
\<close>

theorem failed_open_keeps_prior_pipeline:
  "thrown (filter_ostream_open example_env
      (object (filter_ostream_open example_env filter_ostream_init ''a.txt'' 0 '''' (- 1)))
      ''b.txt'' 0 ''bogus'' (- 1))
     = Some (Exception ''unknown filter compression bogus'')
   \<and> object (filter_ostream_open example_env
      (object (filter_ostream_open example_env filter_ostream_init ''a.txt'' 0 '''' (- 1)))
      ''b.txt'' 0 ''bogus'' (- 1))
     = \<lparr>exceptions = {badbit, failbit},
        stream = Some [file_sink ''a.txt'' 0],
        rdbuf = filtering_rdbuf [file_sink ''a.txt'' 0], ios_state = {}\<rparr>
   \<and> thrown (filter_istream_open example_env
      (object (filter_istream_open example_env filter_istream_init ''a.txt'' 0))
      ''/nonexistent/b.txt'' 0)
     = Some (Exception
         ''stream open failed for file /nonexistent/b.txt: No such file or directory'')
   \<and> object (filter_istream_open example_env
      (object (filter_istream_open example_env filter_istream_init ''a.txt'' 0))
      ''/nonexistent/b.txt'' 0)
     = \<lparr>exceptions = {},
        stream = Some [file_source ''a.txt'' 0],
        rdbuf = filtering_rdbuf [file_source ''a.txt'' 0], ios_state = {}\<rparr>"
proof -
  have o1: "object (filter_ostream_open example_env filter_ostream_init ''a.txt'' 0 '''' (- 1))
     = \<lparr>exceptions = {badbit, failbit},
        stream = Some [file_sink ''a.txt'' 0],
        rdbuf = filtering_rdbuf [file_sink ''a.txt'' 0], ios_state = {}\<rparr>"
    by (simp add: filter_ostream_open_def set_exceptions_def clear_def filter_ostream_init_def
        example_env_def install_eq push_compressor_def push_def c_str_def Let_def
        ends_with_eval npos_def)
  have i1: "object (filter_istream_open example_env filter_istream_init ''a.txt'' 0)
     = \<lparr>exceptions = {},
        stream = Some [file_source ''a.txt'' 0],
        rdbuf = filtering_rdbuf [file_source ''a.txt'' 0], ios_state = {}\<rparr>"
    by (simp add: filter_istream_open_def filter_istream_init_def example_env_def install_eq
        push_decompressors_def push_def c_str_def Let_def ends_with_eval npos_def)
  have o2: "filter_ostream_open example_env
      \<lparr>exceptions = {badbit, failbit},
        stream = Some [file_sink ''a.txt'' 0],
        rdbuf = filtering_rdbuf [file_sink ''a.txt'' 0], ios_state = {}\<rparr>
      ''b.txt'' 0 ''bogus'' (- 1)
     = \<lparr>object = \<lparr>exceptions = {badbit, failbit},
                    stream = Some [file_sink ''a.txt'' 0],
                    rdbuf = filtering_rdbuf [file_sink ''a.txt'' 0], ios_state = {}\<rparr>,
        opened = [],
        thrown = Some (Exception ''unknown filter compression bogus'')\<rparr>"
    by (simp add: filter_ostream_open_def set_exceptions_def clear_def push_compressor_def
        Let_def)
  have i2: "filter_istream_open example_env
      \<lparr>exceptions = {},
        stream = Some [file_source ''a.txt'' 0],
        rdbuf = filtering_rdbuf [file_source ''a.txt'' 0], ios_state = {}\<rparr>
      ''/nonexistent/b.txt'' 0
     = \<lparr>object = \<lparr>exceptions = {},
                    stream = Some [file_source ''a.txt'' 0],
                    rdbuf = filtering_rdbuf [file_source ''a.txt'' 0], ios_state = {}\<rparr>,
        opened = [(''/nonexistent/b.txt'', 0)],
        thrown = Some (Exception
         ''stream open failed for file /nonexistent/b.txt: No such file or directory'')\<rparr>"
    by (simp add: filter_istream_open_def example_env_def c_str_def Let_def)
  show ?thesis
    by (simp add: o1 i1 o2 i2)
qed

text \<open>
  C7, amended. Open-time failures are atomic: for every input on which \<^verbatim>\<open>open\<close>
  raises (on the output stream by file name or by descriptor, and on the input stream),
  no new pipeline is installed as the stream's active buffer, and the stream's prior
  pipeline, if any, stays installed as it was: the member \<^verbatim>\<open>stream\<close> and the buffer
  are those the stream had before the call. The stream is left with the pipeline it had
  or with none, never with a partially constructed one.
\<close>

theorem failed_open_changes_no_pipeline:
  "(thrown (filter_ostream_open env this file0 mode compression level) \<noteq> None \<longrightarrow>
      stream (object (filter_ostream_open env this file0 mode compression level)) = stream this
      \<and> rdbuf (object (filter_ostream_open env this file0 mode compression level)) = rdbuf this)
   \<and> (thrown (filter_ostream_open_fd env this fd mode compression level) \<noteq> None \<longrightarrow>
      stream (object (filter_ostream_open_fd env this fd mode compression level)) = stream this
      \<and> rdbuf (object (filter_ostream_open_fd env this fd mode compression level)) = rdbuf this)
   \<and> (thrown (filter_istream_open env this file0 mode) \<noteq> None \<longrightarrow>
      object (filter_istream_open env this file0 mode) = this)"
proof -
  have a: "thrown (filter_ostream_open env this file0 mode compression level) \<noteq> None \<longrightarrow>
      stream (object (filter_ostream_open env this file0 mode compression level)) = stream this
      \<and> rdbuf (object (filter_ostream_open env this file0 mode compression level)) = rdbuf this"
    by (simp add: filter_ostream_open_def Let_def set_exceptions_frame install_eq
        split: sum.split)
  have b: "thrown (filter_ostream_open_fd env this fd mode compression level) \<noteq> None \<longrightarrow>
      stream (object (filter_ostream_open_fd env this fd mode compression level)) = stream this
      \<and> rdbuf (object (filter_ostream_open_fd env this fd mode compression level)) = rdbuf this"
    by (simp add: filter_ostream_open_fd_def Let_def set_exceptions_frame install_eq
        split: sum.split)
  have c: "thrown (filter_istream_open env this file0 mode) \<noteq> None \<longrightarrow>
      object (filter_istream_open env this file0 mode) = this"
    by (simp add: filter_istream_open_def Let_def install_eq)
  from a b c show ?thesis by blast
qed

theorem failed_open_changes_no_pipeline_witness:
  "thrown (filter_ostream_open example_env
      \<lparr>exceptions = {}, stream = Some [file_sink ''a.txt'' 0],
        rdbuf = filtering_rdbuf [file_sink ''a.txt'' 0], ios_state = {}\<rparr>
      ''/nonexistent/b.txt'' 0 ''gz'' (- 1))
     = Some (Exception ''couldn't open file /nonexistent/b.txt'')
   \<and> stream (object (filter_ostream_open example_env
      \<lparr>exceptions = {}, stream = Some [file_sink ''a.txt'' 0],
        rdbuf = filtering_rdbuf [file_sink ''a.txt'' 0], ios_state = {}\<rparr>
      ''/nonexistent/b.txt'' 0 ''gz'' (- 1)))
     = Some [file_sink ''a.txt'' 0]
   \<and> rdbuf (object (filter_ostream_open example_env
      \<lparr>exceptions = {}, stream = Some [file_sink ''a.txt'' 0],
        rdbuf = filtering_rdbuf [file_sink ''a.txt'' 0], ios_state = {}\<rparr>
      ''/nonexistent/b.txt'' 0 ''gz'' (- 1)))
     = filtering_rdbuf [file_sink ''a.txt'' 0]"
proof -
  have t: "thrown (filter_ostream_open example_env
      \<lparr>exceptions = {}, stream = Some [file_sink ''a.txt'' 0],
        rdbuf = filtering_rdbuf [file_sink ''a.txt'' 0], ios_state = {}\<rparr>
      ''/nonexistent/b.txt'' 0 ''gz'' (- 1))
     = Some (Exception ''couldn't open file /nonexistent/b.txt'')"
    by (simp add: filter_ostream_open_def set_exceptions_def clear_def push_compressor_def
        push_def example_env_def c_str_def Let_def)
  from failed_open_changes_no_pipeline
         [of example_env
             "\<lparr>exceptions = {}, stream = Some [file_sink ''a.txt'' 0],
               rdbuf = filtering_rdbuf [file_sink ''a.txt'' 0], ios_state = {}\<rparr>"
             "''/nonexistent/b.txt''" 0 "''gz''" "- 1"] t
  show ?thesis by simp
qed

subsection \<open>The empty file name and the standard streams\<close>

text \<open>
  C8. The file name is normalised in both directions. The empty name is the null
  device: \<^verbatim>\<open>open\<close> with the empty name opens the path \<^verbatim>\<open>/dev/null\<close> as it opens any
  file, on output (where on every stream it does all that \<^verbatim>\<open>open\<close> with the name
  \<^verbatim>\<open>/dev/null\<close> does) and on input. The name \<^verbatim>\<open>-\<close> binds the pipeline to the
  standard stream and to no file: no file is opened, and the pipeline ends in
  \<^verbatim>\<open>std::cout\<close> on output and in \<^verbatim>\<open>std::cin\<close> on input. For the output stream the
  pipelines are those of the constructor, and of \<^verbatim>\<open>open\<close> on every stream that has a
  buffer and neither \<^verbatim>\<open>badbit\<close> nor \<^verbatim>\<open>failbit\<close> set; on the other streams the first
  statement of \<^verbatim>\<open>open\<close> raises, and still no file is opened.
\<close>

theorem file_name_normalization:
  "filter_ostream_open env this '''' mode compression level
     = filter_ostream_open env this ''/dev/null'' mode compression level
   \<and> (rdbuf this \<noteq> null_streambuf \<and> \<not> fail (ios_state this) \<longrightarrow>
        filter_ostream_open env this '''' mode '''' level
          = (if sink_is_open env ''/dev/null'' mode
             then \<lparr>object = this
                      \<lparr>exceptions := {badbit, failbit},
                       stream := Some [file_sink ''/dev/null'' mode],
                       rdbuf := filtering_rdbuf [file_sink ''/dev/null'' mode],
                       ios_state := {}\<rparr>,
                    opened = [(''/dev/null'', mode)], thrown = None\<rparr>
             else \<lparr>object = this\<lparr>exceptions := {badbit, failbit}\<rparr>,
                    opened = [(''/dev/null'', mode)],
                    thrown = Some (Exception ''couldn't open file /dev/null'')\<rparr>)
        \<and> filter_ostream_open env this ''-'' mode '''' level
          = \<lparr>object = this
                \<lparr>exceptions := {badbit, failbit}, stream := Some [std_cout],
                 rdbuf := filtering_rdbuf [std_cout], ios_state := {}\<rparr>,
             opened = [], thrown = None\<rparr>)
   \<and> filter_ostream_file env '''' mode '''' level
     = (if sink_is_open env ''/dev/null'' mode
        then \<lparr>object = \<lparr>exceptions = {badbit, failbit},
                       stream = Some [file_sink ''/dev/null'' mode],
                       rdbuf = filtering_rdbuf [file_sink ''/dev/null'' mode],
                       ios_state = {}\<rparr>,
               opened = [(''/dev/null'', mode)], thrown = None\<rparr>
        else \<lparr>object = \<lparr>exceptions = {badbit, failbit}, stream = None,
                       rdbuf = cout_rdbuf, ios_state = {}\<rparr>,
               opened = [(''/dev/null'', mode)],
               thrown = Some (Exception ''couldn't open file /dev/null'')\<rparr>)
   \<and> filter_ostream_file env ''-'' mode '''' level
     = \<lparr>object = \<lparr>exceptions = {badbit, failbit}, stream = Some [std_cout],
                    rdbuf = filtering_rdbuf [std_cout], ios_state = {}\<rparr>,
        opened = [], thrown = None\<rparr>
   \<and> opened (filter_ostream_open env this ''-'' mode compression level) = []
   \<and> (thrown (filter_ostream_open env this ''-'' mode compression level) = None \<longrightarrow>
        (\<exists>fs. stream (object (filter_ostream_open env this ''-'' mode compression level))
                = Some (fs @ [std_cout]) \<and> list_all is_filter fs))
   \<and> filter_istream_open env this '''' mode
     = (if source_is_open env ''/dev/null'' mode
        then \<lparr>object = this
                 \<lparr>stream := Some [file_source ''/dev/null'' mode],
                  rdbuf := filtering_rdbuf [file_source ''/dev/null'' mode],
                  ios_state := {}\<rparr>,
               opened = [(''/dev/null'', mode)], thrown = None\<rparr>
        else \<lparr>object = this, opened = [(''/dev/null'', mode)],
               thrown = Some (Exception (''stream open failed for file : ''
                          @ strerror env (errno env ''/dev/null'' mode)))\<rparr>)
   \<and> filter_istream_open env this ''-'' mode
     = \<lparr>object = this\<lparr>stream := Some [std_cin], rdbuf := filtering_rdbuf [std_cin],
                        ios_state := {}\<rparr>,
        opened = [], thrown = None\<rparr>"
proof -
  have a: "filter_ostream_open env this '''' mode compression level
     = filter_ostream_open env this ''/dev/null'' mode compression level"
    by (simp add: filter_ostream_open_def)
  have null_good: "filter_ostream_open env s '''' mode '''' level
          = (if sink_is_open env ''/dev/null'' mode
             then \<lparr>object = s
                      \<lparr>exceptions := {badbit, failbit},
                       stream := Some [file_sink ''/dev/null'' mode],
                       rdbuf := filtering_rdbuf [file_sink ''/dev/null'' mode],
                       ios_state := {}\<rparr>,
                    opened = [(''/dev/null'', mode)], thrown = None\<rparr>
             else \<lparr>object = s\<lparr>exceptions := {badbit, failbit}\<rparr>,
                    opened = [(''/dev/null'', mode)],
                    thrown = Some (Exception ''couldn't open file /dev/null'')\<rparr>)"
    if "rdbuf s \<noteq> null_streambuf" and "\<not> fail (ios_state s)" for s
    by (simp add: filter_ostream_open_good [OF that] push_compressor_def ends_with_eval
        npos_def install_eq c_str_def push_def Let_def)
  have cout_good: "filter_ostream_open env s ''-'' mode '''' level
          = \<lparr>object = s
                \<lparr>exceptions := {badbit, failbit}, stream := Some [std_cout],
                 rdbuf := filtering_rdbuf [std_cout], ios_state := {}\<rparr>,
             opened = [], thrown = None\<rparr>"
    if "rdbuf s \<noteq> null_streambuf" and "\<not> fail (ios_state s)" for s
    by (simp add: filter_ostream_open_good [OF that] push_compressor_def ends_with_eval
        npos_def install_eq push_def Let_def)
  have b: "rdbuf this \<noteq> null_streambuf \<and> \<not> fail (ios_state this) \<longrightarrow>
        filter_ostream_open env this '''' mode '''' level
          = (if sink_is_open env ''/dev/null'' mode
             then \<lparr>object = this
                      \<lparr>exceptions := {badbit, failbit},
                       stream := Some [file_sink ''/dev/null'' mode],
                       rdbuf := filtering_rdbuf [file_sink ''/dev/null'' mode],
                       ios_state := {}\<rparr>,
                    opened = [(''/dev/null'', mode)], thrown = None\<rparr>
             else \<lparr>object = this\<lparr>exceptions := {badbit, failbit}\<rparr>,
                    opened = [(''/dev/null'', mode)],
                    thrown = Some (Exception ''couldn't open file /dev/null'')\<rparr>)
        \<and> filter_ostream_open env this ''-'' mode '''' level
          = \<lparr>object = this
                \<lparr>exceptions := {badbit, failbit}, stream := Some [std_cout],
                 rdbuf := filtering_rdbuf [std_cout], ios_state := {}\<rparr>,
             opened = [], thrown = None\<rparr>"
    using null_good cout_good by blast
  have c: "filter_ostream_file env '''' mode '''' level
     = (if sink_is_open env ''/dev/null'' mode
        then \<lparr>object = \<lparr>exceptions = {badbit, failbit},
                       stream = Some [file_sink ''/dev/null'' mode],
                       rdbuf = filtering_rdbuf [file_sink ''/dev/null'' mode],
                       ios_state = {}\<rparr>,
               opened = [(''/dev/null'', mode)], thrown = None\<rparr>
        else \<lparr>object = \<lparr>exceptions = {badbit, failbit}, stream = None,
                       rdbuf = cout_rdbuf, ios_state = {}\<rparr>,
               opened = [(''/dev/null'', mode)],
               thrown = Some (Exception ''couldn't open file /dev/null'')\<rparr>)"
    by (simp only: filter_ostream_file_def null_good [OF fresh_streams_good(1,2)])
      (simp add: filter_ostream_init_def)
  have d: "filter_ostream_file env ''-'' mode '''' level
     = \<lparr>object = \<lparr>exceptions = {badbit, failbit}, stream = Some [std_cout],
                    rdbuf = filtering_rdbuf [std_cout], ios_state = {}\<rparr>,
        opened = [], thrown = None\<rparr>"
    by (simp only: filter_ostream_file_def cout_good [OF fresh_streams_good(1,2)])
      (simp add: filter_ostream_init_def)
  have e: "opened (filter_ostream_open env this ''-'' mode compression level) = []"
    by (simp add: filter_ostream_open_def Let_def set_exceptions_frame install_eq
        split: sum.split)
  have f: "thrown (filter_ostream_open env this ''-'' mode compression level) = None \<longrightarrow>
        (\<exists>fs. stream (object (filter_ostream_open env this ''-'' mode compression level))
                = Some (fs @ [std_cout]) \<and> list_all is_filter fs)"
  proof (cases "fail (ios_state this) \<or> rdbuf this = null_streambuf")
    case True
    then show ?thesis
      by (simp add: filter_ostream_open_failed set_exceptions_thrown)
  next
    case False
    then have good: "rdbuf this \<noteq> null_streambuf" "\<not> fail (ios_state this)"
      by simp_all
    show ?thesis
    proof (cases "push_compressor [] ''-'' compression level")
      case (Inl e)
      then show ?thesis
        by (simp add: filter_ostream_open_good [OF good] Let_def)
    next
      case (Inr new_stream)
      then have "list_all is_filter new_stream"
        by (simp add: push_compressor_Inr)
      then show ?thesis
        using Inr by (simp add: filter_ostream_open_good [OF good] Let_def install_eq push_def)
    qed
  qed
  have g: "filter_istream_open env this '''' mode
     = (if source_is_open env ''/dev/null'' mode
        then \<lparr>object = this
                 \<lparr>stream := Some [file_source ''/dev/null'' mode],
                  rdbuf := filtering_rdbuf [file_source ''/dev/null'' mode],
                  ios_state := {}\<rparr>,
               opened = [(''/dev/null'', mode)], thrown = None\<rparr>
        else \<lparr>object = this, opened = [(''/dev/null'', mode)],
               thrown = Some (Exception (''stream open failed for file : ''
                          @ strerror env (errno env ''/dev/null'' mode)))\<rparr>)"
    by (simp add: filter_istream_open_def push_decompressors_def ends_with_eval npos_def
        install_eq c_str_def push_def Let_def)
  have h: "filter_istream_open env this ''-'' mode
     = \<lparr>object = this\<lparr>stream := Some [std_cin], rdbuf := filtering_rdbuf [std_cin],
                        ios_state := {}\<rparr>,
        opened = [], thrown = None\<rparr>"
    by (simp add: filter_istream_open_def push_decompressors_def ends_with_eval npos_def
        install_eq push_def Let_def)
  from a b c d e f g h show ?thesis by blast
qed

theorem file_name_normalization_witness:
  "rdbuf filter_ostream_init \<noteq> null_streambuf \<and> \<not> fail (ios_state filter_ostream_init)
   \<and> filter_ostream_open example_env filter_ostream_init '''' 0 '''' (- 1)
     = \<lparr>object = \<lparr>exceptions = {badbit, failbit},
                    stream = Some [file_sink ''/dev/null'' 0],
                    rdbuf = filtering_rdbuf [file_sink ''/dev/null'' 0], ios_state = {}\<rparr>,
        opened = [(''/dev/null'', 0)], thrown = None\<rparr>
   \<and> filter_ostream_open example_env filter_ostream_init ''-'' 0 '''' (- 1)
     = \<lparr>object = \<lparr>exceptions = {badbit, failbit},
                    stream = Some [std_cout], rdbuf = filtering_rdbuf [std_cout],
                    ios_state = {}\<rparr>,
        opened = [], thrown = None\<rparr>
   \<and> filter_istream_open example_env filter_istream_init '''' 0
     = \<lparr>object = \<lparr>exceptions = {},
                    stream = Some [file_source ''/dev/null'' 0],
                    rdbuf = filtering_rdbuf [file_source ''/dev/null'' 0], ios_state = {}\<rparr>,
        opened = [(''/dev/null'', 0)], thrown = None\<rparr>
   \<and> filter_istream_open example_env filter_istream_init ''-'' 0
     = \<lparr>object = \<lparr>exceptions = {},
                    stream = Some [std_cin], rdbuf = filtering_rdbuf [std_cin],
                    ios_state = {}\<rparr>,
        opened = [], thrown = None\<rparr>"
proof -
  have env: "sink_is_open example_env ''/dev/null'' 0"
    "source_is_open example_env ''/dev/null'' 0"
    by (simp_all add: example_env_def)
  note good = fresh_streams_good(1,2)
  note n = file_name_normalization [of example_env filter_ostream_init 0 "''''" "- 1"]
  from n [THEN conjunct2, THEN conjunct1] good env
  have o: "filter_ostream_open example_env filter_ostream_init '''' 0 '''' (- 1)
     = \<lparr>object = \<lparr>exceptions = {badbit, failbit},
                    stream = Some [file_sink ''/dev/null'' 0],
                    rdbuf = filtering_rdbuf [file_sink ''/dev/null'' 0], ios_state = {}\<rparr>,
        opened = [(''/dev/null'', 0)], thrown = None\<rparr>
   \<and> filter_ostream_open example_env filter_ostream_init ''-'' 0 '''' (- 1)
     = \<lparr>object = \<lparr>exceptions = {badbit, failbit},
                    stream = Some [std_cout], rdbuf = filtering_rdbuf [std_cout],
                    ios_state = {}\<rparr>,
        opened = [], thrown = None\<rparr>"
    by (simp add: filter_ostream_init_def)
  note m = file_name_normalization [of example_env filter_istream_init 0 "''''" "- 1"]
  from m [THEN conjunct2, THEN conjunct2, THEN conjunct2, THEN conjunct2, THEN conjunct2,
          THEN conjunct2, THEN conjunct1]
    m [THEN conjunct2, THEN conjunct2, THEN conjunct2, THEN conjunct2, THEN conjunct2,
       THEN conjunct2, THEN conjunct2] env
  have i: "filter_istream_open example_env filter_istream_init '''' 0
     = \<lparr>object = \<lparr>exceptions = {},
                    stream = Some [file_source ''/dev/null'' 0],
                    rdbuf = filtering_rdbuf [file_source ''/dev/null'' 0], ios_state = {}\<rparr>,
        opened = [(''/dev/null'', 0)], thrown = None\<rparr>
   \<and> filter_istream_open example_env filter_istream_init ''-'' 0
     = \<lparr>object = \<lparr>exceptions = {},
                    stream = Some [std_cin], rdbuf = filtering_rdbuf [std_cin],
                    ios_state = {}\<rparr>,
        opened = [], thrown = None\<rparr>"
    by (simp add: filter_istream_init_def)
  from o i good show ?thesis by blast
qed

subsection \<open>The diagnostic of an input file that does not open\<close>


lemma sublist_of_four:
  "sublist b (a @ b @ c @ d)" "sublist d (a @ b @ c @ d)"
proof -
  show "sublist b (a @ b @ c @ d)"
    by (rule sublist_appendI)
  have "sublist d ((a @ b @ c) @ d)"
    by (rule sublist_append_leftI)
  then show "sublist d (a @ b @ c @ d)"
    by simp
qed

text \<open>
  C9. For every file name other than the empty name and \<^verbatim>\<open>-\<close> whose file does not
  open for reading, \<^verbatim>\<open>filter_istream::open\<close> raises at once, the stream is left as it
  was, and the message of the exception is not empty and includes both the file name
  the caller gave and the text of the system error. A file name is a C string: it has
  no NUL byte.
\<close>

theorem istream_open_failure_diagnostic:
  assumes "file0 \<noteq> ''''" and "file0 \<noteq> ''-''" and "CHR 0x00 \<notin> set file0"
    and "\<not> source_is_open env file0 mode"
  shows "\<exists>msg. filter_istream_open env this file0 mode
            = \<lparr>object = this, opened = [(file0, mode)], thrown = Some (Exception msg)\<rparr>
          \<and> msg = ''stream open failed for file '' @ file0 @ '': ''
                    @ strerror env (errno env file0 mode)
          \<and> msg \<noteq> []
          \<and> sublist file0 msg
          \<and> sublist (strerror env (errno env file0 mode)) msg"
proof -
  define msg where "msg = ''stream open failed for file '' @ file0 @ '': ''
                    @ strerror env (errno env file0 mode)"
  have c: "c_str file0 = file0"
    using assms(3) by (rule c_str_no_NUL)
  have "filter_istream_open env this file0 mode
            = \<lparr>object = this, opened = [(file0, mode)], thrown = Some (Exception msg)\<rparr>"
    using assms(1,2,4)
    by (simp add: filter_istream_open_def Let_def c msg_def)
  moreover have "msg \<noteq> []"
    by (simp add: msg_def)
  moreover have "sublist file0 msg"
    unfolding msg_def by (rule sublist_of_four)
  moreover have "sublist (strerror env (errno env file0 mode)) msg"
    unfolding msg_def by (rule sublist_of_four)
  ultimately show ?thesis
    using msg_def by blast
qed

theorem istream_open_failure_diagnostic_witness:
  "''/nonexistent/in.gz'' \<noteq> '''' \<and> ''/nonexistent/in.gz'' \<noteq> ''-''
   \<and> CHR 0x00 \<notin> set ''/nonexistent/in.gz''
   \<and> \<not> source_is_open example_env ''/nonexistent/in.gz'' 0
   \<and> filter_istream_open example_env filter_istream_init ''/nonexistent/in.gz'' 0
     = \<lparr>object = filter_istream_init, opened = [(''/nonexistent/in.gz'', 0)],
        thrown = Some (Exception
          ''stream open failed for file /nonexistent/in.gz: No such file or directory'')\<rparr>
   \<and> sublist ''/nonexistent/in.gz''
        ''stream open failed for file /nonexistent/in.gz: No such file or directory''
   \<and> sublist ''No such file or directory''
        ''stream open failed for file /nonexistent/in.gz: No such file or directory''"
proof -
  have h: "''/nonexistent/in.gz'' \<noteq> ''''" "''/nonexistent/in.gz'' \<noteq> ''-''"
    "CHR 0x00 \<notin> set ''/nonexistent/in.gz''"
    "\<not> source_is_open example_env ''/nonexistent/in.gz'' 0"
    by (simp_all add: example_env_def)
  have e: "strerror example_env (errno example_env ''/nonexistent/in.gz'' 0)
           = ''No such file or directory''"
    by (simp add: example_env_def)
  from istream_open_failure_diagnostic [OF h, of filter_istream_init]
  obtain msg where
    m: "filter_istream_open example_env filter_istream_init ''/nonexistent/in.gz'' 0
         = \<lparr>object = filter_istream_init, opened = [(''/nonexistent/in.gz'', 0)],
            thrown = Some (Exception msg)\<rparr>"
      "msg = ''stream open failed for file '' @ ''/nonexistent/in.gz'' @ '': ''
              @ strerror example_env (errno example_env ''/nonexistent/in.gz'' 0)"
      "sublist ''/nonexistent/in.gz'' msg"
      "sublist (strerror example_env (errno example_env ''/nonexistent/in.gz'' 0)) msg"
    by blast
  have "msg = ''stream open failed for file /nonexistent/in.gz: No such file or directory''"
    using m(2) e by simp
  with m e h show ?thesis
    by simp
qed

subsection \<open>The descriptor-based overload\<close>

lemma push_compressor_fd_by_name:
  "compression \<noteq> '''' \<Longrightarrow>
   push_compressor_fd new_stream compression level
     = push_compressor new_stream name compression level"
  by (simp add: push_compressor_fd_def push_compressor_def)

lemma push_compressor_fd_empty:
  "push_compressor_fd new_stream '''' level = Inr new_stream"
  by (simp add: push_compressor_fd_def)

text \<open>
  C1. Called directly, \<^verbatim>\<open>open(fd, mode, compression, level)\<close> selects the compressor
  from the compression name as the overload by file name does, with the level when it is
  not -1, and raises on an unknown name. The constructor on a descriptor does not: its
  body is \<^verbatim>\<open>open(fd, mode)\<close>, so whatever compression name and level it is given, it
  opens with the empty name and the level -1. Constructed on descriptor 3 with the name
  \<^verbatim>\<open>gz\<close> and level 5, the stream has the descriptor sink alone, where
  \<^verbatim>\<open>open(3, mode, "gz", 5)\<close> has a gzip compressor of level 5 before it; constructed
  with the name \<^verbatim>\<open>bogus\<close> it raises nothing, where \<^verbatim>\<open>open\<close> raises. The constructor
  on a file name passes all four arguments on.
\<close>


theorem fd_constructor_ignores_compression:
  "filter_ostream_fd env fd mode compression level
     = filter_ostream_open_fd env filter_ostream_init fd mode '''' (- 1)
   \<and> filter_ostream_fd example_env 3 0 ''gz'' 5
     = \<lparr>object = \<lparr>exceptions = {badbit, failbit},
                    stream = Some [file_descriptor_sink 3 (Some never_close_handle)],
                    rdbuf = filtering_rdbuf
                      [file_descriptor_sink 3 (Some never_close_handle)],
                    ios_state = {}\<rparr>,
        opened = [], thrown = None\<rparr>
   \<and> filter_ostream_open_fd example_env filter_ostream_init 3 0 ''gz'' 5
     = \<lparr>object = \<lparr>exceptions = {badbit, failbit},
                    stream = Some [gzip_compressor (Some 5),
                                   file_descriptor_sink 3 (Some never_close_handle)],
                    rdbuf = filtering_rdbuf
                      [gzip_compressor (Some 5),
                       file_descriptor_sink 3 (Some never_close_handle)],
                    ios_state = {}\<rparr>,
        opened = [], thrown = None\<rparr>
   \<and> thrown (filter_ostream_fd example_env 3 0 ''bogus'' 5) = None
   \<and> thrown (filter_ostream_open_fd example_env filter_ostream_init 3 0 ''bogus'' 5)
     = Some (Exception ''unknown filter compression bogus'')
   \<and> filter_ostream_file example_env ''out'' 0 ''gz'' 5
     = \<lparr>object = \<lparr>exceptions = {badbit, failbit},
                    stream = Some [gzip_compressor (Some 5), file_sink ''out'' 0],
                    rdbuf = filtering_rdbuf [gzip_compressor (Some 5), file_sink ''out'' 0],
                    ios_state = {}\<rparr>,
        opened = [(''out'', 0)], thrown = None\<rparr>"
proof -
  note by_fd = filter_ostream_open_fd_good [OF fresh_streams_good(1,2)]
  note by_file = filter_ostream_open_good [OF fresh_streams_good(1,2)]
  have a: "filter_ostream_fd env fd mode compression level
     = filter_ostream_open_fd env filter_ostream_init fd mode '''' (- 1)"
    by (simp add: filter_ostream_fd_def default_compression_def default_level_def)
  have v: "\<not> BOOST_VERSION example_env < 104100"
    by (simp add: example_env_def)
  have b: "filter_ostream_fd example_env 3 0 ''gz'' 5
     = \<lparr>object = \<lparr>exceptions = {badbit, failbit},
                    stream = Some [file_descriptor_sink 3 (Some never_close_handle)],
                    rdbuf = filtering_rdbuf
                      [file_descriptor_sink 3 (Some never_close_handle)],
                    ios_state = {}\<rparr>,
        opened = [], thrown = None\<rparr>"
    using v
    by (simp only: filter_ostream_fd_def default_compression_def default_level_def by_fd)
      (simp add: push_compressor_fd_def install_eq push_def filter_ostream_init_def)
  have c: "filter_ostream_open_fd example_env filter_ostream_init 3 0 ''gz'' 5
     = \<lparr>object = \<lparr>exceptions = {badbit, failbit},
                    stream = Some [gzip_compressor (Some 5),
                                   file_descriptor_sink 3 (Some never_close_handle)],
                    rdbuf = filtering_rdbuf
                      [gzip_compressor (Some 5),
                       file_descriptor_sink 3 (Some never_close_handle)],
                    ios_state = {}\<rparr>,
        opened = [], thrown = None\<rparr>"
    using v
    by (simp only: by_fd)
      (simp add: push_compressor_fd_def install_eq push_def filter_ostream_init_def)
  have d: "thrown (filter_ostream_fd example_env 3 0 ''bogus'' 5) = None"
    by (simp only: filter_ostream_fd_def default_compression_def default_level_def by_fd)
      (simp add: push_compressor_fd_def install_eq)
  have e: "thrown (filter_ostream_open_fd example_env filter_ostream_init 3 0 ''bogus'' 5)
     = Some (Exception ''unknown filter compression bogus'')"
    by (simp only: by_fd) (simp add: push_compressor_fd_def)
  have s: "sink_is_open example_env ''out'' 0"
    by (simp add: example_env_def)
  have f: "filter_ostream_file example_env ''out'' 0 ''gz'' 5
     = \<lparr>object = \<lparr>exceptions = {badbit, failbit},
                    stream = Some [gzip_compressor (Some 5), file_sink ''out'' 0],
                    rdbuf = filtering_rdbuf [gzip_compressor (Some 5), file_sink ''out'' 0],
                    ios_state = {}\<rparr>,
        opened = [(''out'', 0)], thrown = None\<rparr>"
    using s
    by (simp only: filter_ostream_file_def by_file)
      (simp add: push_compressor_def install_eq push_def c_str_def filter_ostream_init_def
         Let_def)
  from a b c d e f show ?thesis by blast
qed

end
